theory Spec2Isabelle
  imports Complex_Main
begin

section \<open>Omnichannel routing and closure: the Livechat class\<close>

text \<open>
  A shallow embedding of four methods of \<^verbatim>\<open>LivechatClass\<close>:
  \<^verbatim>\<open>checkOnlineAgents\<close>, \<^verbatim>\<open>resolveChatTags\<close>, \<^verbatim>\<open>closeRoom\<close> and
  \<^verbatim>\<open>sendTranscript\<close>. The document stores, the mailer and the event bridge are
  fields of one state record; every method that touches them takes the state
  and returns it, so that "no write" is a statement about the returned state.
  An exception is a left injection of the result. Store operations are taken
  to succeed, and to be applied in the order the source awaits them. Timestamps
  are milliseconds since the epoch (\<^verbatim>\<open>Date.getTime()\<close>), as \<^typ>\<open>int\<close>; every
  clock reading of one call is the one instant \<open>now\<close>. An optional member of
  an object is an \<^typ>\<open>'a option\<close>, \<open>None\<close> standing for undefined.
\<close>

subsection \<open>JavaScript truthiness of strings\<close>

text \<open>
  \<^verbatim>\<open>if (department)\<close>, \<^verbatim>\<open>agent?.agentId\<close> and
  \<^verbatim>\<open>dep?.fallbackForwardDepartment\<close> test a possibly undefined string:
  undefined and the empty string are both falsy.
\<close>

fun truthy :: "string option \<Rightarrow> bool" where
  "truthy None = False"
| "truthy (Some s) = (s \<noteq> [])"

subsection \<open>Data model\<close>

record user =
  user_id :: string
  user_username :: "string option"
  user_name :: "string option"

record visitor =
  visitor_id :: string
  visitor_username :: "string option"
  visitor_name :: "string option"
  visitor_token :: string
  visitor_language :: "string option"

text \<open>The \<^verbatim>\<open>closedBy\<close> identity: \<^verbatim>\<open>{ _id, username }\<close>.\<close>

record closedBy =
  closedBy_id :: string
  closedBy_username :: "string option"

text \<open>The \<^verbatim>\<open>u\<close> member of a message: \<^verbatim>\<open>{ _id, username, name }\<close>.\<close>

record author =
  u_id :: string
  u_username :: "string option"
  u_name :: "string option"

record servedBy =
  servedBy_id :: string
  servedBy_ts :: int

record transcriptRequest =
  tr_email :: string
  tr_subject :: "string option"

datatype emailTranscript =
  DontSendToVisitor
| SendToVisitor transcriptRequest

text \<open>The \<^verbatim>\<open>options\<close> member of \<^verbatim>\<open>GenericCloseRoomParams\<close>; every field is optional.\<close>

record closeOptions =
  clientAction :: "bool option"
  tags :: "string list option"
  emailTranscript :: "emailTranscript option"
  pdfTranscript :: "string option"

text \<open>\<^verbatim>\<open>IOmnichannelRoomClosingInfo\<close> as \<^verbatim>\<open>closeRoom\<close> builds it, the options spread into it.\<close>

record closingInfo =
  closedAt :: int
  chatDuration :: real
  serviceTimeDuration :: "real option"
  closeOpts :: closeOptions
  closer :: "string option"
  closedBy :: "closedBy option"

record room =
  room_id :: string
  room_t :: string
  room_open :: bool
  room_ts :: int
  room_servedBy :: "servedBy option"
  room_departmentId :: "string option"
  room_tags :: "string list option"
  room_transcriptRequest :: "transcriptRequest option"
  room_v :: "visitor option"
  room_closing :: "closingInfo option"

record department =
  dep_id :: string
  fallbackForwardDepartment :: "string option"
  requestTagBeforeClosingChat :: "bool option"
  chatClosingTags :: "string list option"

record requestData =
  rd_type :: string
  rd_visitor :: visitor
  rd_user :: user

record message =
  msg_rid :: string
  msg_t :: "string option"
  msg_msg :: "string option"
  msg_ts :: int
  msg_u :: author
  msg_hidden :: bool
  msg_groupable :: "bool option"
  msg_transcriptRequested :: "bool option"
  msg_requestData :: "requestData option"

record email =
  mail_to :: string
  mail_from :: string
  mail_replyTo :: string
  mail_subject :: string
  mail_html :: string

datatype event =
  LivechatEvent string room
| CloseRoomCallback room closeOptions
| SendTranscriptCallback "message list" string

datatype error =
  TypeError
| TagsMustBeAssigned
| NoCloserDetails
| RoomNotFound
| InvalidToken
| InvalidRoom
| RocketCatNotFound

text \<open>
  The stores and collaborators. \<^verbatim>\<open>onlineForDepartment\<close> is the number of online
  agents of a department and \<^verbatim>\<open>onlineAgents\<close> the ids of the agents online
  system-wide; \<^verbatim>\<open>outbox\<close> is what was handed to \<^verbatim>\<open>Mailer.send\<close> and
  \<^verbatim>\<open>events\<close> what was scheduled on the Apps bridge and the callback chains.
  \<^verbatim>\<open>i18n key lng\<close> is \<^verbatim>\<open>TAPi18n.__\<close>, \<^verbatim>\<open>formatLLL ts timezone lng\<close> the
  \<^verbatim>\<open>moment.tz(...).locale(...).format('LLL')\<close> chain, and \<^verbatim>\<open>matchEmail\<close> the
  first match of the address pattern in a string; none of them is in the sources
  and nothing below depends on what they compute.
\<close>

record settings =
  Language :: "string option"
  Livechat_show_agent_info :: "string option"
  From_Email :: string

record livechat =
  rooms :: "string \<rightharpoonup> room"
  inquiries :: "string list"
  subscriptions :: "string list"
  departments :: "string \<rightharpoonup> department"
  visitors :: "string \<rightharpoonup> visitor"
  users :: "string \<rightharpoonup> user"
  messages :: "message list"
  onlineForDepartment :: "string \<Rightarrow> nat"
  onlineAgents :: "string list"
  outbox :: "email list"
  events :: "event list"
  settings :: settings
  i18n :: "string \<Rightarrow> string \<Rightarrow> string"
  formatLLL :: "int \<Rightarrow> string \<Rightarrow> string \<Rightarrow> string"
  getTimezone :: "user option \<Rightarrow> string"
  matchEmail :: "string \<Rightarrow> string option"

subsection \<open>Availability resolver\<close>

text \<open>
  Modelled from the spec: \<^verbatim>\<open>LivechatDepartmentAgents.checkOnlineForDepartment\<close> is
  not among the sources; the spec has it "query online-agent-count for that
  department" and test the count for nonzero.
\<close>

definition checkOnlineForDepartment :: "livechat \<Rightarrow> string \<Rightarrow> bool" where
  "checkOnlineForDepartment st department = (0 < onlineForDepartment st department)"

text \<open>
  Modelled from the spec: \<^verbatim>\<open>Users.checkOnlineAgents\<close> is not among the sources;
  with an agent id it is "that specific agent's online status", without one
  "whether any agent system-wide is online".
\<close>

fun Users_checkOnlineAgents :: "livechat \<Rightarrow> string option \<Rightarrow> bool" where
  "Users_checkOnlineAgents st (Some agentId) = (agentId \<in> set (onlineAgents st))"
| "Users_checkOnlineAgents st None = (onlineAgents st \<noteq> [])"

text \<open>
  \<^verbatim>\<open>checkOnlineAgents(department?, agent?, skipFallbackCheck = false)\<close>. The
  recursion follows \<^verbatim>\<open>fallbackForwardDepartment\<close> with nothing that bounds it,
  so the result is an option: \<open>None\<close> is a call that never returns. The
  recursive call passes the department alone, hence no agent and
  \<^verbatim>\<open>skipFallbackCheck = false\<close>.
\<close>

partial_function (option) checkOnlineAgents ::
  "livechat \<Rightarrow> string option \<Rightarrow> string option \<Rightarrow> bool \<Rightarrow> bool option" where
  "checkOnlineAgents st department agentId skipFallbackCheck =
     (if truthy agentId then Some (Users_checkOnlineAgents st agentId)
      else
        (case department of
           None \<Rightarrow> Some (Users_checkOnlineAgents st None)
         | Some d \<Rightarrow>
             if d = [] then Some (Users_checkOnlineAgents st None)
             else
               (let onlineForDep = checkOnlineForDepartment st d in
                if onlineForDep \<or> skipFallbackCheck then Some onlineForDep
                else
                  (case departments st d of
                     None \<Rightarrow> Some onlineForDep
                   | Some dep \<Rightarrow>
                       if \<not> truthy (fallbackForwardDepartment dep) then Some onlineForDep
                       else checkOnlineAgents st (fallbackForwardDepartment dep) None False))))"

declare checkOnlineAgents.simps [code]

text \<open>
  The department the resolver moves on to from \<open>d\<close> when \<open>d\<close> has nobody
  online: the \<^verbatim>\<open>fallbackForwardDepartment\<close> of the stored record, when the
  record exists and the field is truthy.
\<close>

definition fallbackOf :: "livechat \<Rightarrow> string \<Rightarrow> string option" where
  "fallbackOf st d =
     (case departments st d of
        None \<Rightarrow> None
      | Some dep \<Rightarrow>
          if truthy (fallbackForwardDepartment dep) then fallbackForwardDepartment dep else None)"

text \<open>
  A fallback chain that ends: each department names the next one as its fallback
  and the last one names none. Such a chain cannot revisit a department.
\<close>

fun fallbackChain :: "livechat \<Rightarrow> string list \<Rightarrow> bool" where
  "fallbackChain st [] = False"
| "fallbackChain st [d] = (d \<noteq> [] \<and> fallbackOf st d = None)"
| "fallbackChain st (d # e # ds) =
     (d \<noteq> [] \<and> fallbackOf st d = Some e \<and> fallbackChain st (e # ds))"

text \<open>
  A fallback cycle: each department of the list names the next one as its
  fallback, and the last one names the first. \<open>fallbackPath st ds target\<close> is
  the walk along \<open>ds\<close> that leaves the last department for \<open>target\<close>.
\<close>

fun fallbackPath :: "livechat \<Rightarrow> string list \<Rightarrow> string \<Rightarrow> bool" where
  "fallbackPath st [] target = False"
| "fallbackPath st [d] target = (d \<noteq> [] \<and> fallbackOf st d = Some target)"
| "fallbackPath st (d # e # ds) target =
     (d \<noteq> [] \<and> fallbackOf st d = Some e \<and> fallbackPath st (e # ds) target)"

definition fallbackCycle :: "livechat \<Rightarrow> string list \<Rightarrow> bool" where
  "fallbackCycle st ds = (ds \<noteq> [] \<and> fallbackPath st ds (hd ds))"

subsection \<open>Tag policy resolver\<close>

text \<open>\<^verbatim>\<open>arrays.filter((a) => !!a)\<close>: the arrays that are defined (an empty array is truthy).\<close>

fun definedArrays :: "'a list option list \<Rightarrow> 'a list list" where
  "definedArrays [] = []"
| "definedArrays (None # arrays) = definedArrays arrays"
| "definedArrays (Some a # arrays) = a # definedArrays arrays"

text \<open>
  \<^verbatim>\<open>[...new Set(xs)]\<close>: a JavaScript \<^verbatim>\<open>Set\<close> keeps its members in insertion
  order and ignores a value it already holds, so the first occurrence of each
  value survives, in place.
\<close>

fun setAddAll :: "'a list \<Rightarrow> 'a list \<Rightarrow> 'a list" where
  "setAddAll seen [] = seen"
| "setAddAll seen (x # xs) =
     (if x \<in> set seen then setAddAll seen xs else setAddAll (seen @ [x]) xs)"

definition concatUnique :: "string list option list \<Rightarrow> string list" where
  "concatUnique arrays = setAddAll [] (concat (definedArrays arrays))"

text \<open>Truthiness of an optional boolean: undefined and false are both falsy.\<close>

fun truthyFlag :: "bool option \<Rightarrow> bool" where
  "truthyFlag None = False"
| "truthyFlag (Some b) = b"

text \<open>The default \<^verbatim>\<open>options = {}\<close>.\<close>

definition noOptions :: closeOptions where
  "noOptions = \<lparr>clientAction = None, tags = None, emailTranscript = None, pdfTranscript = None\<rparr>"

fun optionsOrDefault :: "closeOptions option \<Rightarrow> closeOptions" where
  "optionsOrDefault None = noOptions"
| "optionsOrDefault (Some options) = options"

text \<open>The members of an optional tag array, an absent array having none.\<close>

fun tagSet :: "string list option \<Rightarrow> string set" where
  "tagSet None = {}"
| "tagSet (Some ts) = set ts"

text \<open>
  \<^verbatim>\<open>{ ...options, ...(ts.length && { tags: ts }) }\<close>: spreading the number 0
  adds nothing, so an empty \<open>ts\<close> leaves the options as they are.
\<close>

definition withTags :: "closeOptions \<Rightarrow> string list \<Rightarrow> closeOptions" where
  "withTags options ts = (if ts = [] then options else options\<lparr>tags := Some ts\<rparr>)"

text \<open>
  \<^verbatim>\<open>resolveChatTags(room, options = {})\<close>. The source names the room's tags
  \<^verbatim>\<open>optionsTags\<close> and the request's tags \<^verbatim>\<open>oldRoomTags\<close>; the request's come
  first in the concatenation. The only store access is
  \<^verbatim>\<open>LivechatDepartment.findOneById\<close>.
\<close>

definition resolveChatTags ::
  "room \<Rightarrow> closeOptions option \<Rightarrow> livechat \<Rightarrow> (error + closeOptions) \<times> livechat" where
  "resolveChatTags room optionsArg st =
     (let options = optionsOrDefault optionsArg;
          roomTags = concatUnique [tags options, room_tags room];
          noDepartment = (Inr (withTags options roomTags), st)
      in case room_departmentId room of
           None \<Rightarrow> noDepartment
         | Some departmentId \<Rightarrow>
             if departmentId = [] then noDepartment
             else
               (case departments st departmentId of
                  None \<Rightarrow> noDepartment
                | Some department \<Rightarrow>
                    (let extraRoomTags = concatUnique [Some roomTags, chatClosingTags department] in
                     if \<not> truthyFlag (requestTagBeforeClosingChat department)
                     then (Inr (withTags options extraRoomTags), st)
                     else
                       (let checkRoomTags = (\<not> truthyFlag (clientAction options) \<or> roomTags \<noteq> []);
                            checkDepartmentTags =
                              (case chatClosingTags department of
                                 None \<Rightarrow> False
                               | Some ts \<Rightarrow> ts \<noteq> [])
                        in if \<not> checkRoomTags \<or> \<not> checkDepartmentTags
                           then (Inl TagsMustBeAssigned, st)
                           else (Inr (withTags options extraRoomTags), st)))))"

text \<open>
  The department record the resolver works with: the one stored under the room's
  \<^verbatim>\<open>departmentId\<close>, when that id is truthy and the record exists.
\<close>

definition roomDepartment :: "livechat \<Rightarrow> room \<Rightarrow> department option" where
  "roomDepartment st room =
     (case room_departmentId room of
        None \<Rightarrow> None
      | Some departmentId \<Rightarrow> if departmentId = [] then None else departments st departmentId)"

subsection \<open>Closure coordinator\<close>

record closeRoomParams =
  p_room :: "room option"
  p_comment :: "string option"
  p_options :: "closeOptions option"
  p_user :: "user option"
  p_visitor :: "visitor option"

text \<open>
  Modelled from the spec: \<^verbatim>\<open>isOmnichannelRoom\<close> comes from the core typings, which
  are not among the sources; the spec has the room "be of the omnichannel kind",
  the kind that \<^verbatim>\<open>sendTranscript\<close> tests as \<^verbatim>\<open>room.t !== 'l'\<close>.
\<close>

definition isOmnichannelRoom :: "room \<Rightarrow> bool" where
  "isOmnichannelRoom room = (room_t room = ''l'')"

text \<open>
  Modelled from the spec: \<^verbatim>\<open>LivechatRooms.closeRoomById\<close> is not among the sources;
  the spec has it "mark the room closed with all closure metadata", the merged
  tags among them, as a conditional update that matches on the open flag.
\<close>

definition LivechatRooms_closeRoomById :: "string \<Rightarrow> closingInfo \<Rightarrow> livechat \<Rightarrow> livechat" where
  "LivechatRooms_closeRoomById rid closeData st =
     (case rooms st rid of
        None \<Rightarrow> st
      | Some r \<Rightarrow>
          if \<not> room_open r then st
          else st\<lparr>rooms := (rooms st)(rid \<mapsto>
                 r\<lparr>room_open := False,
                   room_closing := Some closeData,
                   room_tags := (case tags (closeOpts closeData) of
                                   None \<Rightarrow> room_tags r
                                 | Some ts \<Rightarrow> Some ts)\<rparr>)\<rparr>)"

text \<open>
  Modelled from the spec: \<^verbatim>\<open>LivechatInquiry.removeByRoomId\<close> and
  \<^verbatim>\<open>Subscriptions.removeByRoomId\<close> are not among the sources; the spec has them
  "remove its pending-inquiry record, remove its active subscriptions".
\<close>

definition LivechatInquiry_removeByRoomId :: "string \<Rightarrow> livechat \<Rightarrow> livechat" where
  "LivechatInquiry_removeByRoomId rid st = st\<lparr>inquiries := removeAll rid (inquiries st)\<rparr>"

definition Subscriptions_removeByRoomId :: "string \<Rightarrow> livechat \<Rightarrow> livechat" where
  "Subscriptions_removeByRoomId rid st = st\<lparr>subscriptions := removeAll rid (subscriptions st)\<rparr>"

text \<open>
  Modelled from the spec: \<^verbatim>\<open>sendMessage\<close> is not among the sources; the spec has
  it insert the message into the room's history "attributed to the closer". The
  message is stamped with the clock reading of the call.
\<close>

definition sendMessage ::
  "author \<Rightarrow> string \<Rightarrow> string option \<Rightarrow> bool \<Rightarrow> bool \<Rightarrow> room \<Rightarrow> int \<Rightarrow> livechat \<Rightarrow> livechat" where
  "sendMessage u t msg groupable transcriptRequested room now st =
     st\<lparr>messages := messages st @
        [\<lparr>msg_rid = room_id room, msg_t = Some t, msg_msg = msg, msg_ts = now, msg_u = u,
          msg_hidden = False, msg_groupable = Some groupable,
          msg_transcriptRequested = Some transcriptRequested, msg_requestData = None\<rparr>]\<rparr>"

text \<open>
  Modelled from the spec: \<^verbatim>\<open>Message.saveSystemMessage\<close> is not among the sources;
  the spec has it "insert system message (room id, type tag, author, payload,
  optional extra metadata)".
\<close>

definition saveSystemMessage ::
  "string \<Rightarrow> string \<Rightarrow> string \<Rightarrow> author \<Rightarrow> requestData option \<Rightarrow> int \<Rightarrow> livechat \<Rightarrow> livechat" where
  "saveSystemMessage t rid msg owner extraData now st =
     st\<lparr>messages := messages st @
        [\<lparr>msg_rid = rid, msg_t = Some t, msg_msg = Some msg, msg_ts = now, msg_u = owner,
          msg_hidden = False, msg_groupable = None, msg_transcriptRequested = None,
          msg_requestData = extraData\<rparr>]\<rparr>"

definition userAuthor :: "user \<Rightarrow> author" where
  "userAuthor u = \<lparr>u_id = user_id u, u_username = user_username u, u_name = user_name u\<rparr>"

definition visitorAuthor :: "visitor \<Rightarrow> author" where
  "visitorAuthor v = \<lparr>u_id = visitor_id v, u_username = visitor_username v, u_name = visitor_name v\<rparr>"

definition closedByAuthor :: "closedBy \<Rightarrow> author" where
  "closedByAuthor c = \<lparr>u_id = closedBy_id c, u_username = closedBy_username c, u_name = None\<rparr>"

text \<open>
  Who closed the room: \<^verbatim>\<open>params.user !== undefined\<close> is tested first, then
  \<^verbatim>\<open>params.visitor !== undefined\<close>. The result is the \<^verbatim>\<open>closer\<close> kind, the
  \<^verbatim>\<open>closedBy\<close> identity and the \<^verbatim>\<open>chatCloser\<close> that signs the closing message.
\<close>

definition chatCloserOf :: "closeRoomParams \<Rightarrow> (string \<times> closedBy \<times> author) option" where
  "chatCloserOf params =
     (case p_user params of
        Some u \<Rightarrow>
          Some (''user'', \<lparr>closedBy_id = user_id u, closedBy_username = user_username u\<rparr>,
                userAuthor u)
      | None \<Rightarrow>
          (case p_visitor params of
             Some v \<Rightarrow>
               Some (''visitor'',
                     \<lparr>closedBy_id = visitor_id v, closedBy_username = visitor_username v\<rparr>,
                     visitorAuthor v)
           | None \<Rightarrow> None))"

text \<open>
  \<^verbatim>\<open>servedBy && (now.getTime() - new Date(servedBy.ts).getTime()) / 1000\<close>, then
  \<^verbatim>\<open>...(serviceTimeDuration && { serviceTimeDuration })\<close>: the field is spread
  into the closing data when the value is truthy, and the number 0 is falsy.
  The division is JavaScript's on doubles; the quotient of a millisecond count
  by 1000 is taken here as the exact real, which has the same sign and is zero
  for the same inputs.
\<close>

definition serviceTimeDurationOf :: "room \<Rightarrow> int \<Rightarrow> real option" where
  "serviceTimeDurationOf room now =
     (case room_servedBy room of
        None \<Rightarrow> None
      | Some s \<Rightarrow>
          (let d = real_of_int (now - servedBy_ts s) / 1000 in
           if d = 0 then None else Some d))"

text \<open>
  \<^verbatim>\<open>closeRoom(params)\<close>, with \<open>now\<close> the reading of \<^verbatim>\<open>new Date()\<close>. The first
  statement formats \<^verbatim>\<open>room._id\<close> into a log line before the guard looks at
  \<^verbatim>\<open>room\<close>, so an absent room is a \<^verbatim>\<open>TypeError\<close>. Store operations are taken
  to succeed; the three writes of \<^verbatim>\<open>Promise.all\<close> touch different
  collections. The events are logged in the order they are scheduled.
\<close>

definition closeRoom :: "closeRoomParams \<Rightarrow> int \<Rightarrow> livechat \<Rightarrow> (error + unit) \<times> livechat" where
  "closeRoom params now st =
     (case p_room params of
        None \<Rightarrow> (Inl TypeError, st)
      | Some room \<Rightarrow>
          if \<not> isOmnichannelRoom room \<or> \<not> room_open room then (Inr (), st)
          else
            (case resolveChatTags room (p_options params) st of
               (Inl e, st1) \<Rightarrow> (Inl e, st1)
             | (Inr options, st1) \<Rightarrow>
                 (let rid = room_id room;
                      closeData =
                        \<lparr>closedAt = now,
                         chatDuration = real_of_int (now - room_ts room) / 1000,
                         serviceTimeDuration = serviceTimeDurationOf room now,
                         closeOpts = options,
                         closer = None,
                         closedBy = None\<rparr>
                  in case chatCloserOf params of
                       None \<Rightarrow> (Inl NoCloserDetails, st1)
                     | Some (kind, by, chatCloser) \<Rightarrow>
                         (let closeData' = closeData\<lparr>closer := Some kind, closedBy := Some by\<rparr>;
                              st2 = Subscriptions_removeByRoomId rid
                                      (LivechatInquiry_removeByRoomId rid
                                        (LivechatRooms_closeRoomById rid closeData' st1))
                          in case rooms st2 rid of
                               None \<Rightarrow> (Inl RoomNotFound, st2)
                             | Some newRoom \<Rightarrow>
                                 (let st3 = sendMessage chatCloser ''livechat-close''
                                              (p_comment params) False
                                              (room_transcriptRequest room \<noteq> None) newRoom now st2;
                                      st4 = saveSystemMessage ''command'' rid ''promptTranscript''
                                              (closedByAuthor by) None now st3;
                                      st5 = st4\<lparr>events := events st4 @
                                              [LivechatEvent ''ILivechatRoomClosedHandler'' newRoom,
                                               LivechatEvent ''IPostLivechatRoomClosed'' newRoom,
                                               CloseRoomCallback newRoom options]\<rparr>
                                  in (Inr (), st5))))))"

subsection \<open>Transcript generator\<close>

record transcriptParams =
  tp_token :: string
  tp_rid :: string
  tp_email :: string
  tp_subject :: "string option"
  tp_user :: "user option"

text \<open>\<^verbatim>\<open>a || b\<close> on an optional string with a string default.\<close>

fun orElse :: "string option \<Rightarrow> string \<Rightarrow> string" where
  "orElse None d = d"
| "orElse (Some s) d = (if s = [] then d else s)"

text \<open>An optional string inside a template literal: undefined prints as \<^verbatim>\<open>undefined\<close>.\<close>

fun templateString :: "string option \<Rightarrow> string" where
  "templateString None = ''undefined''"
| "templateString (Some s) = s"

definition ignoredMessageTypes :: "string list" where
  "ignoredMessageTypes =
     [''livechat_navigation_history'',
      ''livechat_transcript_history'',
      ''command'',
      ''livechat-close'',
      ''livechat-started'',
      ''livechat_video_call'']"

text \<open>
  Modelled from the spec: \<^verbatim>\<open>Messages.findLivechatClosingMessage\<close> is not among the
  sources; the spec speaks of "the closing-message timestamp", the closing
  message being the one \<^verbatim>\<open>closeRoom\<close> inserts with type \<^verbatim>\<open>livechat-close\<close>.
\<close>

definition findLivechatClosingMessage :: "livechat \<Rightarrow> string \<Rightarrow> message option" where
  "findLivechatClosingMessage st rid =
     find (\<lambda>m. msg_rid m = rid \<and> msg_t m = Some ''livechat-close'') (messages st)"

text \<open>
  Modelled from the spec: \<^verbatim>\<open>Messages.findVisibleByRoomIdNotContainingTypesBeforeTs\<close>
  is not among the sources; the spec has it "fetch all messages for the room
  strictly before" the given timestamp, "excluding" the given kinds, "ordered
  chronologically ascending" (the \<^verbatim>\<open>sort: { ts: 1 }\<close> option of the call).
\<close>

definition findVisibleByRoomIdNotContainingTypesBeforeTs ::
  "livechat \<Rightarrow> string \<Rightarrow> string list \<Rightarrow> int \<Rightarrow> message list" where
  "findVisibleByRoomIdNotContainingTypesBeforeTs st rid types ts =
     sort_key msg_ts
       (filter (\<lambda>m. msg_rid m = rid \<and> \<not> msg_hidden m \<and>
                    (case msg_t m of None \<Rightarrow> True | Some t \<Rightarrow> t \<notin> set types) \<and>
                    msg_ts m < ts)
          (messages st))"

text \<open>
  The cursor \<^verbatim>\<open>messages\<close> of \<^verbatim>\<open>sendTranscript\<close>: the bound is the closing message's
  timestamp, or the clock when there is none.
\<close>

definition transcriptMessages :: "livechat \<Rightarrow> string \<Rightarrow> int \<Rightarrow> message list" where
  "transcriptMessages st rid now =
     (let closingMessage = findLivechatClosingMessage st rid in
      findVisibleByRoomIdNotContainingTypesBeforeTs st rid ignoredMessageTypes
        (case closingMessage of None \<Rightarrow> now | Some m \<Rightarrow> msg_ts m))"

text \<open>One pass of the \<^verbatim>\<open>messages.forEach\<close> body: the template \<^verbatim>\<open>singleMessage\<close>.\<close>

definition singleMessage :: "livechat \<Rightarrow> visitor \<Rightarrow> string \<Rightarrow> string \<Rightarrow> message \<Rightarrow> string" where
  "singleMessage st visitor userLanguage timezone m =
     (let author =
            (if u_id (msg_u m) = visitor_id visitor then i18n st ''You'' userLanguage
             else if truthy (Livechat_show_agent_info (settings st))
               then templateString
                      (if truthy (u_name (msg_u m)) then u_name (msg_u m)
                       else u_username (msg_u m))
               else i18n st ''Agent'' userLanguage);
          datetime = formatLLL st (msg_ts m) timezone userLanguage;
          indent = replicate 4 (CHR 0x09)
      in [CHR 0x0A] @ indent @ ''<p><strong>'' @ author @ ''</strong>  <em>'' @ datetime @
         ''</em></p>'' @ [CHR 0x0A] @ indent @ ''<p>'' @ templateString (msg_msg m) @ ''</p>'' @
         [CHR 0x0A] @ replicate 3 (CHR 0x09))"

text \<open>
  The document: \<^verbatim>\<open>html\<close> starts as \<^verbatim>\<open><div> <hr>\<close>, takes one
  \<^verbatim>\<open>singleMessage\<close> per message of the cursor and is closed with \<^verbatim>\<open></div>\<close>.
\<close>

definition transcriptHtml ::
  "livechat \<Rightarrow> visitor \<Rightarrow> string \<Rightarrow> string \<Rightarrow> message list \<Rightarrow> string" where
  "transcriptHtml st visitor userLanguage timezone msgs =
     ''<div> <hr>'' @ concat (map (singleMessage st visitor userLanguage timezone) msgs) @ ''</div>''"

text \<open>
  \<^verbatim>\<open>sendTranscript({ token, rid, email, subject, user })\<close>, with \<open>now\<close> the
  reading of the clock. The room and the visitor are both read before either is
  tested, and the visitor is tested first. The two \<^verbatim>\<open>check(_, String)\<close> calls
  hold for every \<^typ>\<open>string\<close>.
\<close>

definition sendTranscript :: "transcriptParams \<Rightarrow> int \<Rightarrow> livechat \<Rightarrow> (error + bool) \<times> livechat" where
  "sendTranscript params now st =
     (let token = tp_token params; rid = tp_rid params; email = tp_email params in
      case visitors st token of
        None \<Rightarrow> (Inl InvalidToken, st)
      | Some visitor \<Rightarrow>
          (let userLanguage = orElse (visitor_language visitor) (orElse (Language (settings st)) ''en'');
               timezone = getTimezone st (tp_user params)
           in case rooms st rid of
                None \<Rightarrow> (Inl InvalidRoom, st)
              | Some room \<Rightarrow>
                  if room_t room \<noteq> ''l'' \<or>
                     (case room_v room of None \<Rightarrow> True | Some v \<Rightarrow> visitor_token v \<noteq> token)
                  then (Inl InvalidRoom, st)
                  else
                    (let msgs = transcriptMessages st rid now;
                         html = transcriptHtml st visitor userLanguage timezone msgs;
                         emailFromRegexp =
                           (case matchEmail st (From_Email (settings st)) of
                              Some found \<Rightarrow> found
                            | None \<Rightarrow> From_Email (settings st));
                         mailSubject =
                           orElse (tp_subject params)
                             (i18n st ''Transcript_of_your_livechat_conversation'' userLanguage);
                         st1 = st\<lparr>outbox := outbox st @
                                 [\<lparr>mail_to = email, mail_from = emailFromRegexp,
                                   mail_replyTo = emailFromRegexp, mail_subject = mailSubject,
                                   mail_html = html\<rparr>]\<rparr>;
                         st2 = st1\<lparr>events := events st1 @ [SendTranscriptCallback msgs email]\<rparr>;
                         cat = (if truthy (Option.bind (tp_user params) user_username) then None
                                else users st2 ''rocket.cat'');
                         requestUser = (case cat of Some c \<Rightarrow> Some c | None \<Rightarrow> tp_user params);
                         requestType = (case cat of Some c \<Rightarrow> ''visitor'' | None \<Rightarrow> ''user'')
                     in case requestUser of
                          None \<Rightarrow> (Inl RocketCatNotFound, st2)
                        | Some u \<Rightarrow>
                            (Inr True,
                             saveSystemMessage ''livechat_transcript_history'' (room_id room) []
                               (userAuthor u)
                               (Some \<lparr>rd_type = requestType, rd_visitor = visitor, rd_user = u\<rparr>)
                               now st2))))"

subsection \<open>Scenarios\<close>

text \<open>Concrete stores for the worked examples below.\<close>

definition blank :: livechat where
  "blank =
     \<lparr>rooms = Map.empty, inquiries = [], subscriptions = [], departments = Map.empty,
      visitors = Map.empty, users = Map.empty, messages = [],
      onlineForDepartment = (\<lambda>d. 0), onlineAgents = [], outbox = [], events = [],
      settings = \<lparr>Language = None, Livechat_show_agent_info = None,
                  From_Email = ''support@example.com''\<rparr>,
      i18n = (\<lambda>key lng. key), formatLLL = (\<lambda>ts timezone lng. []),
      getTimezone = (\<lambda>u. ''UTC''), matchEmail = (\<lambda>s. None)\<rparr>"

definition dept :: "string \<Rightarrow> string option \<Rightarrow> department" where
  "dept name fallback =
     \<lparr>dep_id = name, fallbackForwardDepartment = fallback,
      requestTagBeforeClosingChat = None, chatClosingTags = None\<rparr>"

text \<open>The spec's scenario: nobody online in D2, which falls back to D3 with one agent online.\<close>

definition scenarioFallback :: livechat where
  "scenarioFallback =
     blank\<lparr>departments := [''D2'' \<mapsto> dept ''D2'' (Some ''D3''), ''D3'' \<mapsto> dept ''D3'' None],
           onlineForDepartment := (\<lambda>d. if d = ''D3'' then 1 else 0)\<rparr>"

text \<open>Two departments that fall back to each other, and one that falls back to itself.\<close>

definition scenarioCycle :: livechat where
  "scenarioCycle =
     blank\<lparr>departments := [''D1'' \<mapsto> dept ''D1'' (Some ''D2''),
                            ''D2'' \<mapsto> dept ''D2'' (Some ''D1'')]\<rparr>"

definition scenarioSelfLoop :: livechat where
  "scenarioSelfLoop = blank\<lparr>departments := [''D1'' \<mapsto> dept ''D1'' (Some ''D1'')]\<rparr>"

text \<open>An agent, a visitor, an open omnichannel room and a close request by the agent.\<close>

definition userU1 :: user where
  "userU1 = \<lparr>user_id = ''U1'', user_username = Some ''agent.one'', user_name = Some ''Agent One''\<rparr>"

definition visitorV1 :: visitor where
  "visitorV1 =
     \<lparr>visitor_id = ''V1'', visitor_username = Some ''guest-1'', visitor_name = None,
      visitor_token = ''tok-1'', visitor_language = None\<rparr>"

definition openRoom :: "string \<Rightarrow> string option \<Rightarrow> room" where
  "openRoom rid departmentId =
     \<lparr>room_id = rid, room_t = ''l'', room_open = True, room_ts = 1000, room_servedBy = None,
      room_departmentId = departmentId, room_tags = None, room_transcriptRequest = None,
      room_v = Some visitorV1, room_closing = None\<rparr>"

definition byUser :: "room \<Rightarrow> closeOptions option \<Rightarrow> closeRoomParams" where
  "byUser room options =
     \<lparr>p_room = Some room, p_comment = Some ''resolved'', p_options = options,
      p_user = Some userU1, p_visitor = None\<rparr>"

definition clientActionOptions :: "string list option \<Rightarrow> closeOptions" where
  "clientActionOptions ts = noOptions\<lparr>clientAction := Some True, tags := ts\<rparr>"

text \<open>The spec's scenario R1: an open room without department, with its inquiry and subscription.\<close>

definition scenarioR1 :: livechat where
  "scenarioR1 =
     blank\<lparr>rooms := [''R1'' \<mapsto> openRoom ''R1'' None],
           inquiries := [''R1''], subscriptions := [''R1'']\<rparr>"

text \<open>
  The spec's scenario R2: the room's department D1 requires a tag before closing
  and has no mandatory tags configured.
\<close>

definition scenarioR2 :: livechat where
  "scenarioR2 =
     blank\<lparr>rooms := [''R2'' \<mapsto> openRoom ''R2'' (Some ''D1'')],
           departments :=
             [''D1'' \<mapsto> (dept ''D1'' None)\<lparr>requestTagBeforeClosingChat := Some True\<rparr>]\<rparr>"

text \<open>Room R3: its department D4 requires a tag before closing and mandates the tag billing.\<close>

definition departmentD4 :: department where
  "departmentD4 =
     (dept ''D4'' None)\<lparr>requestTagBeforeClosingChat := Some True,
                        chatClosingTags := Some [''billing'']\<rparr>"

definition scenarioR3 :: livechat where
  "scenarioR3 =
     blank\<lparr>rooms := [''R3'' \<mapsto> openRoom ''R3'' (Some ''D4'')],
           departments := [''D4'' \<mapsto> departmentD4]\<rparr>"

text \<open>
  Room R5 was created at 1000 ms and taken by an agent at 2000 ms; room R6 carries
  a creation time of 2000 ms and an assignment at 3000 ms.
\<close>

definition roomR5 :: room where
  "roomR5 = (openRoom ''R5'' None)\<lparr>room_servedBy := Some \<lparr>servedBy_id = ''U1'', servedBy_ts = 2000\<rparr>\<rparr>"

definition roomR6 :: room where
  "roomR6 =
     (openRoom ''R6'' None)\<lparr>room_ts := 2000,
                            room_servedBy := Some \<lparr>servedBy_id = ''U1'', servedBy_ts = 3000\<rparr>\<rparr>"

definition scenarioR56 :: livechat where
  "scenarioR56 = blank\<lparr>rooms := [''R5'' \<mapsto> roomR5, ''R6'' \<mapsto> roomR6]\<rparr>"

text \<open>A history for room R1: two visitor lines, a command echo, the closing message, a late line.\<close>

definition line :: "string option \<Rightarrow> string \<Rightarrow> int \<Rightarrow> message" where
  "line t msg ts =
     \<lparr>msg_rid = ''R1'', msg_t = t, msg_msg = Some msg, msg_ts = ts, msg_u = visitorAuthor visitorV1,
      msg_hidden = False, msg_groupable = None, msg_transcriptRequested = None,
      msg_requestData = None\<rparr>"

definition scenarioTranscript :: livechat where
  "scenarioTranscript =
     scenarioR1\<lparr>visitors := [''tok-1'' \<mapsto> visitorV1],
                users := [''rocket.cat'' \<mapsto>
                  \<lparr>user_id = ''rocket.cat'', user_username = Some ''rocket.cat'',
                   user_name = Some ''Rocket.Cat''\<rparr>],
                messages := [line None ''second'' 30, line None ''first'' 10,
                             line (Some ''command'') ''promptTranscript'' 20,
                             line (Some ''livechat-close'') ''resolved'' 40,
                             line None ''late'' 50]\<rparr>"

definition transcriptRequestOf :: "string \<Rightarrow> string \<Rightarrow> transcriptParams" where
  "transcriptRequestOf token rid =
     \<lparr>tp_token = token, tp_rid = rid, tp_email = ''guest@example.com'', tp_subject = None,
      tp_user = None\<rparr>"

section \<open>Availability resolver: fallback chains\<close>

lemma fallbackOf_truthy: "fallbackOf st d = Some e \<Longrightarrow> e \<noteq> []"
  by (auto simp: fallbackOf_def split: option.splits if_splits)

lemma checkOnlineAgents_online:
  "d \<noteq> [] \<Longrightarrow> checkOnlineForDepartment st d \<Longrightarrow>
   checkOnlineAgents st (Some d) None False = Some True"
  by (subst checkOnlineAgents.simps) simp

lemma checkOnlineAgents_no_fallback:
  "d \<noteq> [] \<Longrightarrow> \<not> checkOnlineForDepartment st d \<Longrightarrow> fallbackOf st d = None \<Longrightarrow>
   checkOnlineAgents st (Some d) None False = Some False"
  by (subst checkOnlineAgents.simps)
    (auto simp: fallbackOf_def split: option.splits if_splits)

lemma checkOnlineAgents_hop:
  "d \<noteq> [] \<Longrightarrow> \<not> checkOnlineForDepartment st d \<Longrightarrow> fallbackOf st d = Some e \<Longrightarrow>
   checkOnlineAgents st (Some d) None False = checkOnlineAgents st (Some e) None False"
  by (subst checkOnlineAgents.simps)
    (auto simp: fallbackOf_def split: option.splits if_splits)

text \<open>
  A set of departments with nobody online that is closed under the fallback
  step: a call on any of them has no result. The least fixed point gives no
  value that the body does not produce, and inside the set the body only ever
  passes the question on.
\<close>

lemma checkOnlineAgents_closed_None:
  assumes closed: "\<And>c. c \<in> C \<Longrightarrow>
      c \<noteq> [] \<and> \<not> checkOnlineForDepartment st c \<and> (\<exists>e\<in>C. fallbackOf st c = Some e)"
    and d: "d \<in> C"
  shows "checkOnlineAgents st (Some d) None False = None"
proof -
  have never: "\<forall>c\<in>C. dep \<noteq> Some c"
    if "checkOnlineAgents st dep None False = Some y" for dep y
  proof -
    have "st' = st \<longrightarrow> ag = None \<longrightarrow> \<not> skip \<longrightarrow> (\<forall>c\<in>C. dep \<noteq> Some c)"
      if "checkOnlineAgents st' dep ag skip = Some y" for st' ag skip
      apply (rule checkOnlineAgents.raw_induct
        [where P = "\<lambda>st' dep ag skip y. st' = st \<longrightarrow> ag = None \<longrightarrow> \<not> skip \<longrightarrow> (\<forall>c\<in>C. dep \<noteq> Some c)",
          OF _ that])
      subgoal premises prems for rec st' dep ag skip y
      proof (intro impI ballI notI)
        fix c
        assume eqs: "st' = st" "ag = None" "\<not> skip" and c: "c \<in> C" and dep: "dep = Some c"
        from closed [OF c] obtain e where
          ne: "c \<noteq> []" and off: "\<not> checkOnlineForDepartment st c" and e: "e \<in> C"
          and fb: "fallbackOf st c = Some e" by blast
        from fb obtain r where r: "departments st c = Some r"
          "truthy (fallbackForwardDepartment r)" "fallbackForwardDepartment r = Some e"
          by (auto simp: fallbackOf_def split: option.splits if_splits)
        from prems(2) eqs dep ne off r have "rec st (Some e) None False = Some y"
          by simp
        from prems(1) [OF this] e show False by blast
      qed
      done
    with that show ?thesis by simp
  qed
  show ?thesis
  proof (cases "checkOnlineAgents st (Some d) None False")
    case None
    then show ?thesis .
  next
    case (Some y)
    from never [OF this] d show ?thesis by blast
  qed
qed

lemma fallbackPath_step:
  "fallbackPath st ds target \<Longrightarrow> c \<in> set ds \<Longrightarrow>
   c \<noteq> [] \<and> (\<exists>e\<in>insert target (set ds). fallbackOf st c = Some e)"
  by (induction st ds target rule: fallbackPath.induct) auto

text \<open>
  C1 (as amended). On a fallback cycle in which no department has an agent
  online, \<^verbatim>\<open>checkOnlineAgents\<close> called on a department of the cycle, with no
  forced agent and the fallback not skipped, produces no result at all: the
  recursion goes round the cycle without end. It does not return false. With
  the fallback skipped, the same call returns false at once.
\<close>

theorem checkOnlineAgents_cycle_never_returns:
  assumes "fallbackCycle st ds"
    and "\<forall>c\<in>set ds. \<not> checkOnlineForDepartment st c"
    and "d \<in> set ds"
  shows "checkOnlineAgents st (Some d) None False = None \<and>
    checkOnlineAgents st (Some d) None True = Some False"
proof
  from assms(1) have p: "fallbackPath st ds (hd ds)" and ne: "ds \<noteq> []"
    by (simp_all add: fallbackCycle_def)
  from ne have hd: "insert (hd ds) (set ds) = set ds" by (cases ds) auto
  show "checkOnlineAgents st (Some d) None False = None"
  proof (rule checkOnlineAgents_closed_None [where C = "set ds"])
    show "d \<in> set ds" by fact
  next
    fix c assume c: "c \<in> set ds"
    with fallbackPath_step [OF p c] assms(2) hd
    show "c \<noteq> [] \<and> \<not> checkOnlineForDepartment st c \<and>
        (\<exists>e\<in>set ds. fallbackOf st c = Some e)"
      by simp
  qed
  from fallbackPath_step [OF p assms(3)] assms(2,3)
  have "d \<noteq> []" and "\<not> checkOnlineForDepartment st d" by simp_all
  then show "checkOnlineAgents st (Some d) None True = Some False"
    by (subst checkOnlineAgents.simps) simp
qed

theorem checkOnlineAgents_cycle_never_returns_witness:
  "fallbackCycle scenarioSelfLoop [''D1''] \<and>
   \<not> checkOnlineForDepartment scenarioSelfLoop ''D1'' \<and>
   checkOnlineAgents scenarioSelfLoop (Some ''D1'') None False = None \<and>
   checkOnlineAgents scenarioSelfLoop (Some ''D1'') None True = Some False"
proof -
  have cyc: "fallbackCycle scenarioSelfLoop [''D1'']"
    by (simp add: fallbackCycle_def fallbackOf_def scenarioSelfLoop_def blank_def dept_def)
  have off: "\<not> checkOnlineForDepartment scenarioSelfLoop ''D1''"
    by (simp add: checkOnlineForDepartment_def scenarioSelfLoop_def blank_def)
  from checkOnlineAgents_cycle_never_returns [of scenarioSelfLoop "[''D1'']" "''D1''"] cyc off
  show ?thesis by simp
qed

text \<open>
  The claim as stated fails on the two-department cycle: D1 has nobody online
  and sits on a cycle, and the call on it does not return false.
\<close>

theorem checkOnlineAgents_cycle_counterexample:
  "fallbackCycle scenarioCycle [''D1'', ''D2''] \<and>
   \<not> checkOnlineForDepartment scenarioCycle ''D1'' \<and>
   checkOnlineAgents scenarioCycle (Some ''D1'') None False \<noteq> Some False"
proof -
  have cyc: "fallbackCycle scenarioCycle [''D1'', ''D2'']"
    by (simp add: fallbackCycle_def fallbackOf_def scenarioCycle_def blank_def dept_def)
  have off: "\<not> checkOnlineForDepartment scenarioCycle c" for c
    by (simp add: checkOnlineForDepartment_def scenarioCycle_def blank_def)
  have "checkOnlineAgents scenarioCycle (Some ''D1'') None False = None"
  proof (rule checkOnlineAgents_closed_None [where C = "{''D1'', ''D2''}"])
    fix c :: string assume "c \<in> {''D1'', ''D2''}"
    then show "c \<noteq> [] \<and> \<not> checkOnlineForDepartment scenarioCycle c \<and>
        (\<exists>e\<in>{''D1'', ''D2''}. fallbackOf scenarioCycle c = Some e)"
      using off by (auto simp: fallbackOf_def scenarioCycle_def blank_def dept_def)
  qed simp
  with cyc off show ?thesis by simp
qed

lemma checkOnlineAgents_chain:
  "fallbackChain st (d # ds) \<Longrightarrow>
   checkOnlineAgents st (Some d) None False =
     Some (\<exists>x\<in>set (d # ds). checkOnlineForDepartment st x)"
proof (induction ds arbitrary: d)
  case Nil
  then show ?case
    by (cases "checkOnlineForDepartment st d")
      (simp_all add: checkOnlineAgents_online checkOnlineAgents_no_fallback)
next
  case (Cons e ds)
  then show ?case
    by (cases "checkOnlineForDepartment st d")
      (simp_all add: checkOnlineAgents_online checkOnlineAgents_hop)
qed

lemma fallbackChain_suffix:
  "fallbackChain st (xs @ ys) \<Longrightarrow> ys \<noteq> [] \<Longrightarrow> fallbackChain st ys"
proof (induction xs)
  case Nil
  then show ?case by simp
next
  case (Cons x xs)
  then show ?case by (cases "xs @ ys") auto
qed

lemma fallbackChain_deterministic:
  "fallbackChain st (d # xs) \<Longrightarrow> fallbackChain st (d # ys) \<Longrightarrow> xs = ys"
proof (induction xs arbitrary: d ys)
  case Nil
  then show ?case by (cases ys) auto
next
  case (Cons x xs)
  then show ?case by (cases ys) auto
qed

text \<open>A chain that ends visits no department twice: it is acyclic.\<close>

lemma fallbackChain_distinct: "fallbackChain st ds \<Longrightarrow> distinct ds"
proof (induction ds)
  case Nil
  then show ?case by simp
next
  case (Cons d ds)
  show ?case
  proof (cases ds)
    case Nil
    then show ?thesis by simp
  next
    case (Cons e es)
    with Cons.prems have tl: "fallbackChain st ds" by simp
    have "d \<notin> set ds"
    proof
      assume "d \<in> set ds"
      then obtain xs ys where split: "ds = xs @ d # ys" by (auto simp: in_set_conv_decomp)
      with tl have "fallbackChain st (d # ys)" by (auto dest: fallbackChain_suffix)
      from fallbackChain_deterministic [OF this Cons.prems] have "ys = ds" .
      with split show False by (auto dest: arg_cong [where f = length])
    qed
    with Cons.IH [OF tl] show ?thesis by simp
  qed
qed

text \<open>
  C4. On a fallback chain that ends, and so revisits no department,
  \<^verbatim>\<open>checkOnlineAgents\<close> called on the first department with no forced agent and
  the fallback not skipped returns, and what it returns is whether some
  department of the chain has an agent online. In particular, when a department
  has no agent online and its fallback department has one, the call on the
  former returns true.
\<close>

theorem checkOnlineAgents_acyclic_chain:
  "(fallbackChain st (d # ds) \<longrightarrow>
      distinct (d # ds) \<and>
      checkOnlineAgents st (Some d) None False =
        Some (\<exists>x\<in>set (d # ds). checkOnlineForDepartment st x)) \<and>
   (d \<noteq> [] \<and> onlineForDepartment st d = 0 \<and> fallbackOf st d = Some e \<and>
    0 < onlineForDepartment st e \<longrightarrow>
      checkOnlineAgents st (Some d) None False = Some True)"
proof (intro conjI impI)
  assume "fallbackChain st (d # ds)"
  then show "distinct (d # ds)" by (rule fallbackChain_distinct)
next
  assume "fallbackChain st (d # ds)"
  then show "checkOnlineAgents st (Some d) None False =
      Some (\<exists>x\<in>set (d # ds). checkOnlineForDepartment st x)"
    by (rule checkOnlineAgents_chain)
next
  assume a: "d \<noteq> [] \<and> onlineForDepartment st d = 0 \<and> fallbackOf st d = Some e \<and>
    0 < onlineForDepartment st e"
  then have "checkOnlineAgents st (Some d) None False = checkOnlineAgents st (Some e) None False"
    by (intro checkOnlineAgents_hop) (simp_all add: checkOnlineForDepartment_def)
  also from a have "\<dots> = Some True"
    by (intro checkOnlineAgents_online)
      (auto simp: checkOnlineForDepartment_def dest: fallbackOf_truthy)
  finally show "checkOnlineAgents st (Some d) None False = Some True" .
qed

text \<open>The scenario of the spec: D2 with nobody online falls back to D3 with one agent.\<close>

theorem checkOnlineAgents_acyclic_chain_witness:
  "fallbackChain scenarioFallback [''D2'', ''D3''] \<and>
   onlineForDepartment scenarioFallback ''D2'' = 0 \<and>
   fallbackOf scenarioFallback ''D2'' = Some ''D3'' \<and>
   onlineForDepartment scenarioFallback ''D3'' = 1 \<and>
   checkOnlineAgents scenarioFallback (Some ''D2'') None False = Some True"
proof -
  have chain: "fallbackChain scenarioFallback [''D2'', ''D3'']"
    by (simp add: fallbackOf_def scenarioFallback_def blank_def dept_def)
  have d2: "onlineForDepartment scenarioFallback ''D2'' = 0"
    and d3: "onlineForDepartment scenarioFallback ''D3'' = 1"
    and fb: "fallbackOf scenarioFallback ''D2'' = Some ''D3''"
    by (simp_all add: fallbackOf_def scenarioFallback_def blank_def dept_def)
  from checkOnlineAgents_acyclic_chain [of scenarioFallback "''D2''" "[''D3'']" "''D3''"]
    chain d2 d3 fb
  have "checkOnlineAgents scenarioFallback (Some ''D2'') None False = Some True"
    by (simp add: checkOnlineForDepartment_def)
  with chain d2 d3 fb show ?thesis by simp
qed

section \<open>Tag policy resolver\<close>

lemma set_setAddAll: "set (setAddAll seen xs) = set seen \<union> set xs"
  by (induction seen xs rule: setAddAll.induct) auto

lemma distinct_setAddAll: "distinct seen \<Longrightarrow> distinct (setAddAll seen xs)"
  by (induction seen xs rule: setAddAll.induct) auto

lemma set_concatUnique2: "set (concatUnique [a, b]) = tagSet a \<union> tagSet b"
  by (cases a; cases b) (simp_all add: concatUnique_def set_setAddAll)

lemma distinct_concatUnique: "distinct (concatUnique arrays)"
  by (simp add: concatUnique_def distinct_setAddAll)

lemma concatUnique2_Nil: "concatUnique [a, b] = [] \<longleftrightarrow> tagSet a = {} \<and> tagSet b = {}"
  using set_concatUnique2 [of a b] by (metis Un_empty set_empty)

lemma tagSet_withTags:
  "tagSet (tags options) \<subseteq> set ts \<Longrightarrow> tagSet (tags (withTags options ts)) = set ts"
  by (auto simp: withTags_def)

lemma withTags_frame:
  "clientAction (withTags options ts) = clientAction options \<and>
   emailTranscript (withTags options ts) = emailTranscript options \<and>
   pdfTranscript (withTags options ts) = pdfTranscript options"
  by (simp add: withTags_def)

lemma withTags_tags:
  "tags (withTags options ts) = (if ts = [] then tags options else Some ts)"
  by (simp add: withTags_def)

text \<open>The two ways through \<^verbatim>\<open>resolveChatTags\<close>: without a department record, and with one.\<close>

lemma resolveChatTags_no_department:
  assumes "roomDepartment st room = None"
  shows "resolveChatTags room optionsArg st =
    (Inr (withTags (optionsOrDefault optionsArg)
            (concatUnique [tags (optionsOrDefault optionsArg), room_tags room])), st)"
  using assms
  by (auto simp: resolveChatTags_def roomDepartment_def Let_def split: option.splits if_splits)

lemma resolveChatTags_department:
  assumes "roomDepartment st room = Some department"
  shows "resolveChatTags room optionsArg st =
    (let options = optionsOrDefault optionsArg;
         roomTags = concatUnique [tags options, room_tags room];
         extraRoomTags = concatUnique [Some roomTags, chatClosingTags department]
     in if truthyFlag (requestTagBeforeClosingChat department) \<and>
           ((truthyFlag (clientAction options) \<and> roomTags = []) \<or>
            tagSet (chatClosingTags department) = {})
        then (Inl TagsMustBeAssigned, st)
        else (Inr (withTags options extraRoomTags), st))"
  using assms
  by (cases "chatClosingTags department")
     (auto simp: resolveChatTags_def roomDepartment_def Let_def split: option.splits if_splits)

lemma resolveChatTags_state: "snd (resolveChatTags room optionsArg st) = st"
  by (cases "roomDepartment st room")
     (simp_all add: resolveChatTags_no_department resolveChatTags_department Let_def)

text \<open>
  C5. For a room whose department record exists, the tags of the options that
  \<^verbatim>\<open>resolveChatTags\<close> returns on success are, as a set, the union of the tags on
  the room, the tags of the close request and the department's closing tags,
  whatever the order of the three arrays; and the array holds no tag twice.
\<close>

theorem resolveChatTags_tags_union:
  assumes "roomDepartment st room = Some department"
    and "resolveChatTags room optionsArg st = (Inr updated, st')"
  shows "tagSet (tags updated) =
      tagSet (room_tags room) \<union> tagSet (tags (optionsOrDefault optionsArg)) \<union>
      tagSet (chatClosingTags department) \<and>
    (\<forall>ts. tags updated = Some ts \<longrightarrow> distinct ts)"
proof -
  let ?options = "optionsOrDefault optionsArg"
  let ?roomTags = "concatUnique [tags ?options, room_tags room]"
  let ?extra = "concatUnique [Some ?roomTags, chatClosingTags department]"
  from assms have upd: "updated = withTags ?options ?extra"
    by (simp add: resolveChatTags_department Let_def split: if_splits)
  have extra: "set ?extra = tagSet (room_tags room) \<union> tagSet (tags ?options) \<union>
      tagSet (chatClosingTags department)"
    by (auto simp: set_concatUnique2)
  then have "tagSet (tags ?options) \<subseteq> set ?extra" by auto
  from tagSet_withTags [OF this] upd extra have sets: "tagSet (tags updated) =
      tagSet (room_tags room) \<union> tagSet (tags ?options) \<union> tagSet (chatClosingTags department)"
    by simp
  have "distinct ts" if "tags updated = Some ts" for ts
  proof (cases "?extra = []")
    case True
    with extra have "tagSet (tags ?options) = {}" by auto
    moreover from True upd that have "tags ?options = Some ts" by (simp add: withTags_tags)
    ultimately show ?thesis by simp
  next
    case False
    with upd that have "ts = ?extra" by (simp add: withTags_tags)
    then show ?thesis by (simp add: distinct_concatUnique)
  qed
  with sets show ?thesis by blast
qed

text \<open>
  Room R3 carries vip and new, the request carries new, vip, new, and the
  department mandates billing: the resolved tags are new, vip, billing.
\<close>

theorem resolveChatTags_tags_union_witness:
  "roomDepartment scenarioR3 ((openRoom ''R3'' (Some ''D4''))\<lparr>room_tags := Some [''vip'', ''new'']\<rparr>) =
     Some departmentD4 \<and>
   fst (resolveChatTags ((openRoom ''R3'' (Some ''D4''))\<lparr>room_tags := Some [''vip'', ''new'']\<rparr>)
         (Some (clientActionOptions (Some [''new'', ''vip'', ''new'']))) scenarioR3) =
     Inr (clientActionOptions (Some [''new'', ''vip'', ''billing''])) \<and>
   tagSet (tags (clientActionOptions (Some [''new'', ''vip'', ''billing'']))) =
     tagSet (Some [''vip'', ''new'']) \<union> tagSet (Some [''new'', ''vip'', ''new'']) \<union>
     tagSet (chatClosingTags departmentD4)"
proof -
  let ?room = "(openRoom ''R3'' (Some ''D4''))\<lparr>room_tags := Some [''vip'', ''new'']\<rparr>"
  let ?request = "Some (clientActionOptions (Some [''new'', ''vip'', ''new'']))"
  have dep: "roomDepartment scenarioR3 ?room = Some departmentD4"
    by (simp add: roomDepartment_def scenarioR3_def blank_def openRoom_def)
  have res: "resolveChatTags ?room ?request scenarioR3 =
      (Inr (clientActionOptions (Some [''new'', ''vip'', ''billing''])), scenarioR3)"
    by (subst resolveChatTags_department [OF dep])
      (simp add: Let_def concatUnique_def clientActionOptions_def noOptions_def openRoom_def
        departmentD4_def dept_def withTags_def)
  from resolveChatTags_tags_union [OF dep res] dep res show ?thesis
    by (simp add: openRoom_def clientActionOptions_def noOptions_def)
qed

text \<open>
  What \<^verbatim>\<open>resolveChatTags\<close> returns on success is the options with the merge of
  the tags: those of the request, those of the room and, when the room's
  department record exists, the department's closing tags.
\<close>

lemma resolveChatTags_Inr_merged:
  assumes "resolveChatTags room optionsArg st = (Inr updated, st')"
  shows "\<exists>ts. distinct ts \<and>
    set ts = tagSet (room_tags room) \<union> tagSet (tags (optionsOrDefault optionsArg)) \<union>
      (case roomDepartment st room of
         None \<Rightarrow> {}
       | Some department \<Rightarrow> tagSet (chatClosingTags department)) \<and>
    updated = withTags (optionsOrDefault optionsArg) ts"
proof (cases "roomDepartment st room")
  case None
  with assms have "updated = withTags (optionsOrDefault optionsArg)
      (concatUnique [tags (optionsOrDefault optionsArg), room_tags room])"
    by (simp add: resolveChatTags_no_department)
  with None show ?thesis
    by (intro exI [of _ "concatUnique [tags (optionsOrDefault optionsArg), room_tags room]"])
      (auto simp: set_concatUnique2 distinct_concatUnique)
next
  case (Some department)
  let ?extra = "concatUnique
      [Some (concatUnique [tags (optionsOrDefault optionsArg), room_tags room]),
       chatClosingTags department]"
  from Some assms have "updated = withTags (optionsOrDefault optionsArg) ?extra"
    by (simp add: resolveChatTags_department Let_def split: if_splits)
  with Some show ?thesis
    by (intro exI [of _ ?extra]) (auto simp: set_concatUnique2 distinct_concatUnique)
qed

text \<open>
  C10 (as amended). \<^verbatim>\<open>resolveChatTags\<close> writes to no store and returns the
  options with \<^verbatim>\<open>clientAction\<close>, \<^verbatim>\<open>emailTranscript\<close> and \<^verbatim>\<open>pdfTranscript\<close> as they
  came; the \<^verbatim>\<open>tags\<close> field is either left as it came or set to a non-empty array
  without repetitions. When the merged tags (the room's, the request's and,
  with a department record, the department's closing tags) are empty, the field
  is left as it came: absent if the request had none, the request's own empty
  array otherwise.
\<close>

theorem resolveChatTags_frame:
  "snd (resolveChatTags room optionsArg st) = st \<and>
   (\<forall>updated. fst (resolveChatTags room optionsArg st) = Inr updated \<longrightarrow>
      clientAction updated = clientAction (optionsOrDefault optionsArg) \<and>
      emailTranscript updated = emailTranscript (optionsOrDefault optionsArg) \<and>
      pdfTranscript updated = pdfTranscript (optionsOrDefault optionsArg) \<and>
      (tags updated = tags (optionsOrDefault optionsArg) \<or>
       (\<exists>ts. tags updated = Some ts \<and> ts \<noteq> [] \<and> distinct ts)) \<and>
      (tagSet (room_tags room) \<union> tagSet (tags (optionsOrDefault optionsArg)) \<union>
         (case roomDepartment st room of
            None \<Rightarrow> {}
          | Some department \<Rightarrow> tagSet (chatClosingTags department)) = {} \<longrightarrow>
       tags updated = tags (optionsOrDefault optionsArg)) \<and>
      (tagSet (tags updated) = {} \<longrightarrow> tags updated = tags (optionsOrDefault optionsArg)))"
proof (intro conjI allI impI)
  show "snd (resolveChatTags room optionsArg st) = st" by (rule resolveChatTags_state)
next
  fix updated
  assume "fst (resolveChatTags room optionsArg st) = Inr updated"
  then have "resolveChatTags room optionsArg st = (Inr updated, st)"
    using resolveChatTags_state [of room optionsArg st] by (metis prod.collapse)
  from resolveChatTags_Inr_merged [OF this] obtain ts where
    ts: "distinct ts" "updated = withTags (optionsOrDefault optionsArg) ts"
    and merged: "set ts =
      tagSet (room_tags room) \<union> tagSet (tags (optionsOrDefault optionsArg)) \<union>
      (case roomDepartment st room of
         None \<Rightarrow> {}
       | Some department \<Rightarrow> tagSet (chatClosingTags department))"
    by blast
  show "clientAction updated = clientAction (optionsOrDefault optionsArg)"
    "emailTranscript updated = emailTranscript (optionsOrDefault optionsArg)"
    "pdfTranscript updated = pdfTranscript (optionsOrDefault optionsArg)"
    using ts by (simp_all add: withTags_frame)
  show "tags updated = tags (optionsOrDefault optionsArg) \<or>
      (\<exists>ts. tags updated = Some ts \<and> ts \<noteq> [] \<and> distinct ts)"
    using ts by (simp add: withTags_tags)
  show "tags updated = tags (optionsOrDefault optionsArg)"
    if "tagSet (room_tags room) \<union> tagSet (tags (optionsOrDefault optionsArg)) \<union>
         (case roomDepartment st room of
            None \<Rightarrow> {}
          | Some department \<Rightarrow> tagSet (chatClosingTags department)) = {}"
  proof -
    from that merged have "ts = []" by simp
    with ts(2) show ?thesis by (simp add: withTags_tags)
  qed
  show "tags updated = tags (optionsOrDefault optionsArg)" if "tagSet (tags updated) = {}"
    using ts that by (auto simp: withTags_tags split: if_splits)
qed

text \<open>
  A request without tags on room R1, which has neither tags nor department: the
  merge is empty and the field stays absent.
\<close>

theorem resolveChatTags_frame_witness:
  "fst (resolveChatTags (openRoom ''R1'' None) (Some (clientActionOptions None)) scenarioR1) =
     Inr (clientActionOptions None) \<and>
   snd (resolveChatTags (openRoom ''R1'' None) (Some (clientActionOptions None)) scenarioR1) =
     scenarioR1 \<and>
   roomDepartment scenarioR1 (openRoom ''R1'' None) = None \<and>
   tagSet (room_tags (openRoom ''R1'' None)) = {} \<and>
   tagSet (tags (clientActionOptions None)) = {} \<and>
   tags (clientActionOptions None) = None"
proof -
  have dep: "roomDepartment scenarioR1 (openRoom ''R1'' None) = None"
    by (simp add: roomDepartment_def openRoom_def)
  have res: "fst (resolveChatTags (openRoom ''R1'' None) (Some (clientActionOptions None)) scenarioR1) =
      Inr (clientActionOptions None)"
    by (subst resolveChatTags_no_department [OF dep])
      (simp add: concatUnique_def clientActionOptions_def noOptions_def openRoom_def withTags_def)
  have none: "tags (clientActionOptions None) = None"
    and untagged: "tagSet (room_tags (openRoom ''R1'' None)) = {}"
    by (simp_all add: clientActionOptions_def noOptions_def openRoom_def)
  from resolveChatTags_frame
    [of "openRoom ''R1'' None" "Some (clientActionOptions None)" scenarioR1] res none dep untagged
  show ?thesis by simp
qed

text \<open>
  The claim as stated fails on a request that carries an empty tag array: the
  merged tags are empty, and the result holds the empty array, not an absent field.
\<close>

theorem resolveChatTags_empty_tags_counterexample:
  "fst (resolveChatTags (openRoom ''R1'' None) (Some (noOptions\<lparr>tags := Some []\<rparr>)) scenarioR1) =
     Inr (noOptions\<lparr>tags := Some []\<rparr>) \<and>
   tags (noOptions\<lparr>tags := Some []\<rparr>) = Some [] \<and>
   concatUnique [Some [], room_tags (openRoom ''R1'' None)] = []"
  by (simp add: resolveChatTags_def concatUnique_def openRoom_def withTags_def noOptions_def)

section \<open>Closure coordinator\<close>

text \<open>
  The guard: for a room that is not of the omnichannel kind or is not open, the
  call returns successfully and leaves every store, the message history and the
  event log as they were.
\<close>

lemma closeRoom_guard:
  "p_room params = Some room \<Longrightarrow> \<not> isOmnichannelRoom room \<or> \<not> room_open room \<Longrightarrow>
   closeRoom params now st = (Inr (), st)"
  by (auto simp: closeRoom_def)

lemma closeRoom_tags_rejected:
  assumes "p_room params = Some room" "isOmnichannelRoom room" "room_open room"
    and "fst (resolveChatTags room (p_options params) st) = Inl e"
  shows "closeRoom params now st = (Inl e, st)"
proof -
  from assms(4) resolveChatTags_state [of room "p_options params" st]
  have "resolveChatTags room (p_options params) st = (Inl e, st)"
    by (metis prod.collapse)
  with assms(1-3) show ?thesis by (simp add: closeRoom_def)
qed

text \<open>The room read back after the three writes, when it was stored and open.\<close>

lemma closeRoom_writes:
  assumes "rooms st rid = Some room" "room_open room"
  shows "rooms (Subscriptions_removeByRoomId rid
            (LivechatInquiry_removeByRoomId rid (LivechatRooms_closeRoomById rid closeData st))) rid =
         Some (room\<lparr>room_open := False, room_closing := Some closeData,
                 room_tags := (case tags (closeOpts closeData) of
                                 None \<Rightarrow> room_tags room | Some ts \<Rightarrow> Some ts)\<rparr>)"
  using assms
  by (simp add: Subscriptions_removeByRoomId_def LivechatInquiry_removeByRoomId_def
      LivechatRooms_closeRoomById_def)

lemma writes_messages:
  "messages (Subscriptions_removeByRoomId rid
      (LivechatInquiry_removeByRoomId rid (LivechatRooms_closeRoomById rid closeData st))) =
   messages st"
  by (simp add: Subscriptions_removeByRoomId_def LivechatInquiry_removeByRoomId_def
      LivechatRooms_closeRoomById_def split: option.splits)

text \<open>What \<^verbatim>\<open>closeRoom\<close> does once the guard and the tag resolver have let the request through.\<close>

lemma closeRoom_accepted:
  assumes room: "p_room params = Some room" "isOmnichannelRoom room" "room_open room"
    and tags: "resolveChatTags room (p_options params) st = (Inr options, st)"
  shows "(chatCloserOf params = None \<longrightarrow> closeRoom params now st = (Inl NoCloserDetails, st)) \<and>
    (\<forall>kind by chatCloser. chatCloserOf params = Some (kind, by, chatCloser) \<longrightarrow>
       (let closeData = \<lparr>closedAt = now,
                         chatDuration = real_of_int (now - room_ts room) / 1000,
                         serviceTimeDuration = serviceTimeDurationOf room now,
                         closeOpts = options, closer = Some kind, closedBy = Some by\<rparr>;
            st2 = Subscriptions_removeByRoomId (room_id room)
                    (LivechatInquiry_removeByRoomId (room_id room)
                      (LivechatRooms_closeRoomById (room_id room) closeData st))
        in closeRoom params now st =
           (case rooms st2 (room_id room) of
              None \<Rightarrow> (Inl RoomNotFound, st2)
            | Some newRoom \<Rightarrow>
               (Inr (),
                (saveSystemMessage ''command'' (room_id room) ''promptTranscript''
                  (closedByAuthor by) None now
                  (sendMessage chatCloser ''livechat-close'' (p_comment params) False
                     (room_transcriptRequest room \<noteq> None) newRoom now st2))
                \<lparr>events := events st2 @
                    [LivechatEvent ''ILivechatRoomClosedHandler'' newRoom,
                     LivechatEvent ''IPostLivechatRoomClosed'' newRoom,
                     CloseRoomCallback newRoom options]\<rparr>))))"
  using room tags
  by (auto simp: closeRoom_def Let_def saveSystemMessage_def sendMessage_def split: option.splits)

lemma closeRoom_accepted_error:
  assumes "p_room params = Some room" "isOmnichannelRoom room" "room_open room"
    and "resolveChatTags room (p_options params) st = (Inr options, st)"
  shows "fst (closeRoom params now st) \<noteq> Inl TagsMustBeAssigned"
proof (cases "chatCloserOf params")
  case None
  with closeRoom_accepted [OF assms, of now] show ?thesis by simp
next
  case (Some c)
  obtain kind "by" chatCloser where "c = (kind, by, chatCloser)" by (cases c) auto
  with Some closeRoom_accepted [OF assms, of now] show ?thesis
    by (auto simp: Let_def split: option.splits)
qed

text \<open>
  A successful close of a stored, open room: the stored room is closed with the
  closing data, and the history grows by the closing message and the prompt.
\<close>

lemma closeRoom_success:
  assumes room: "p_room params = Some room" "isOmnichannelRoom room" "room_open room"
    and stored: "rooms st (room_id room) = Some room"
    and ok: "closeRoom params now st = (Inr (), st')"
  shows "\<exists>options kind by m1 m2.
     rooms st' (room_id room) =
       Some (room\<lparr>room_open := False,
               room_closing := Some \<lparr>closedAt = now,
                         chatDuration = real_of_int (now - room_ts room) / 1000,
                         serviceTimeDuration = serviceTimeDurationOf room now,
                         closeOpts = options, closer = Some kind, closedBy = Some by\<rparr>,
               room_tags := (case tags options of None \<Rightarrow> room_tags room | Some ts \<Rightarrow> Some ts)\<rparr>) \<and>
     messages st' = messages st @ [m1, m2] \<and>
     msg_t m1 = Some ''livechat-close'' \<and> msg_t m2 = Some ''command''"
proof -
  obtain res st1 where r: "resolveChatTags room (p_options params) st = (res, st1)"
    by (cases "resolveChatTags room (p_options params) st") auto
  with resolveChatTags_state [of room "p_options params" st] have st1: "st1 = st" by simp
  show ?thesis
  proof (cases res)
    case (Inl e)
    with r st1 closeRoom_tags_rejected [OF room, of st e now] ok show ?thesis by simp
  next
    case (Inr options)
    with r st1 have tags: "resolveChatTags room (p_options params) st = (Inr options, st)" by simp
    note acc = closeRoom_accepted [OF room tags, of now]
    show ?thesis
    proof (cases "chatCloserOf params")
      case None
      with acc ok show ?thesis by simp
    next
      case (Some c)
      obtain kind "by" chatCloser where c: "c = (kind, by, chatCloser)" by (cases c) auto
      let ?closeData = "\<lparr>closedAt = now,
                         chatDuration = real_of_int (now - room_ts room) / 1000,
                         serviceTimeDuration = serviceTimeDurationOf room now,
                         closeOpts = options, closer = Some kind, closedBy = Some by\<rparr>"
      from acc Some c ok closeRoom_writes [OF stored room(3), of ?closeData]
        writes_messages [of "room_id room" ?closeData st]
      show ?thesis
        by (auto simp: Let_def saveSystemMessage_def sendMessage_def)
    qed
  qed
qed

text \<open>A close by the agent U1, without options, of a stored open room with no department and no tags.\<close>

lemma closeRoom_byUser_plain:
  assumes stored: "rooms st (room_id room) = Some room"
    and k: "isOmnichannelRoom room" and "open": "room_open room"
    and dep: "roomDepartment st room = None" and untagged: "room_tags room = None"
  shows "closeRoom (byUser room None) now st = (Inr (), snd (closeRoom (byUser room None) now st))"
proof -
  let ?params = "byUser room None"
  have p: "p_room ?params = Some room" by (simp add: byUser_def)
  have tags: "resolveChatTags room (p_options ?params) st = (Inr noOptions, st)"
    by (subst resolveChatTags_no_department [OF dep])
      (simp add: concatUnique_def noOptions_def withTags_def byUser_def untagged)
  have who: "chatCloserOf ?params =
      Some (''user'', \<lparr>closedBy_id = ''U1'', closedBy_username = Some ''agent.one''\<rparr>,
            userAuthor userU1)"
    by (simp add: chatCloserOf_def byUser_def userU1_def)
  from closeRoom_accepted [OF p k "open" tags, of now] who closeRoom_writes [OF stored "open"]
  have "fst (closeRoom ?params now st) = Inr ()"
    by (simp add: Let_def)
  then show ?thesis by (metis prod.collapse)
qed

text \<open>
  C2. The claim has \<^verbatim>\<open>closeRoom\<close> return successfully, with nothing written,
  for a room that is absent, of another kind or not open, and the guard tests
  \<^verbatim>\<open>!room\<close> to that end. The code breaks it for the absent room: the debug line
  before the guard reads \<^verbatim>\<open>room._id\<close>, so the call raises a \<^verbatim>\<open>TypeError\<close>
  instead of returning. Nothing is written on the way.
\<close>

theorem closeRoom_absent_room_raises:
  "p_room params = None \<Longrightarrow>
   fst (closeRoom params now st) = Inl TypeError \<and> snd (closeRoom params now st) = st"
  by (simp add: closeRoom_def)

text \<open>A close request by the agent U1 that carries no room, with room R1 open in the store.\<close>

theorem closeRoom_absent_room_raises_witness:
  "p_room \<lparr>p_room = None, p_comment = None, p_options = None, p_user = Some userU1,
           p_visitor = None\<rparr> = None \<and>
   fst (closeRoom \<lparr>p_room = None, p_comment = None, p_options = None, p_user = Some userU1,
                   p_visitor = None\<rparr> 5000 scenarioR1) = Inl TypeError \<and>
   snd (closeRoom \<lparr>p_room = None, p_comment = None, p_options = None, p_user = Some userU1,
                   p_visitor = None\<rparr> 5000 scenarioR1) = scenarioR1"
  using closeRoom_absent_room_raises
    [of "\<lparr>p_room = None, p_comment = None, p_options = None, p_user = Some userU1,
          p_visitor = None\<rparr>" 5000 scenarioR1]
  by simp

text \<open>
  C3 (as amended). For an open omnichannel room whose department record exists
  and has \<^verbatim>\<open>requestTagBeforeClosingChat\<close> set, \<^verbatim>\<open>closeRoom\<close> raises the tag-policy
  error exactly when the request is a client action and neither the room nor
  the request carries a tag, or the department has no closing tag configured.
  When it raises, nothing has been written: every store is as it was, and so
  the room is still open.
\<close>

theorem closeRoom_tag_policy:
  assumes "p_room params = Some room" "isOmnichannelRoom room" "room_open room"
    and "roomDepartment st room = Some department"
    and "truthyFlag (requestTagBeforeClosingChat department)"
  shows "(fst (closeRoom params now st) = Inl TagsMustBeAssigned \<longleftrightarrow>
            (truthyFlag (clientAction (optionsOrDefault (p_options params))) \<and>
             tagSet (room_tags room) = {} \<and>
             tagSet (tags (optionsOrDefault (p_options params))) = {}) \<or>
            tagSet (chatClosingTags department) = {}) \<and>
         (fst (closeRoom params now st) = Inl TagsMustBeAssigned \<longrightarrow>
            snd (closeRoom params now st) = st)"
proof -
  let ?options = "optionsOrDefault (p_options params)"
  let ?roomTags = "concatUnique [tags ?options, room_tags room]"
  let ?violated = "(truthyFlag (clientAction ?options) \<and> ?roomTags = []) \<or>
      tagSet (chatClosingTags department) = {}"
  have resolved: "resolveChatTags room (p_options params) st =
      (if ?violated then (Inl TagsMustBeAssigned, st)
       else (Inr (withTags ?options (concatUnique [Some ?roomTags, chatClosingTags department])),
             st))"
    using assms(4,5) by (simp add: resolveChatTags_department Let_def)
  have raised: "fst (closeRoom params now st) = Inl TagsMustBeAssigned \<longleftrightarrow> ?violated"
    and unchanged: "fst (closeRoom params now st) = Inl TagsMustBeAssigned \<longrightarrow>
      snd (closeRoom params now st) = st"
  proof -
    show "fst (closeRoom params now st) = Inl TagsMustBeAssigned \<longleftrightarrow> ?violated"
    proof (cases ?violated)
      case True
      with resolved have "fst (resolveChatTags room (p_options params) st) = Inl TagsMustBeAssigned"
        by simp
      from closeRoom_tags_rejected [OF assms(1-3) this] True show ?thesis by simp
    next
      case False
      with resolved have "resolveChatTags room (p_options params) st =
          (Inr (withTags ?options (concatUnique [Some ?roomTags, chatClosingTags department])), st)"
        by simp
      from closeRoom_accepted_error [OF assms(1-3) this] False show ?thesis by simp
    qed
    show "fst (closeRoom params now st) = Inl TagsMustBeAssigned \<longrightarrow>
        snd (closeRoom params now st) = st"
    proof
      assume "fst (closeRoom params now st) = Inl TagsMustBeAssigned"
      with \<open>fst (closeRoom params now st) = Inl TagsMustBeAssigned \<longleftrightarrow> ?violated\<close>
      have ?violated by simp
      with resolved have "fst (resolveChatTags room (p_options params) st) = Inl TagsMustBeAssigned"
        by simp
      from closeRoom_tags_rejected [OF assms(1-3) this] show "snd (closeRoom params now st) = st"
        by simp
    qed
  qed
  have "?roomTags = [] \<longleftrightarrow>
      tagSet (room_tags room) = {} \<and> tagSet (tags ?options) = {}"
    by (auto simp: concatUnique2_Nil)
  with raised unchanged show ?thesis by simp
qed

text \<open>
  The spec's scenario R2: the department requires a tag and has none configured,
  the request is a client action and the room carries no tag. The close fails
  with the tag-policy error and nothing is written.
\<close>

theorem closeRoom_tag_policy_witness:
  "roomDepartment scenarioR2 (openRoom ''R2'' (Some ''D1'')) =
     Some ((dept ''D1'' None)\<lparr>requestTagBeforeClosingChat := Some True\<rparr>) \<and>
   closeRoom (byUser (openRoom ''R2'' (Some ''D1'')) (Some (clientActionOptions None))) 5000
     scenarioR2 = (Inl TagsMustBeAssigned, scenarioR2) \<and>
   map_option room_open (rooms scenarioR2 ''R2'') = Some True"
proof -
  let ?room = "openRoom ''R2'' (Some ''D1'')"
  let ?params = "byUser ?room (Some (clientActionOptions None))"
  let ?department = "(dept ''D1'' None)\<lparr>requestTagBeforeClosingChat := Some True\<rparr>"
  have p: "p_room ?params = Some ?room" by (simp add: byUser_def)
  have k: "isOmnichannelRoom ?room" and "open": "room_open ?room"
    by (simp_all add: isOmnichannelRoom_def openRoom_def)
  have dep: "roomDepartment scenarioR2 ?room = Some ?department"
    by (simp add: roomDepartment_def scenarioR2_def blank_def openRoom_def)
  have req: "truthyFlag (requestTagBeforeClosingChat ?department)" by simp
  have none: "tagSet (chatClosingTags ?department) = {}" by (simp add: dept_def)
  have stored: "map_option room_open (rooms scenarioR2 ''R2'') = Some True"
    by (simp add: scenarioR2_def blank_def openRoom_def)
  from closeRoom_tag_policy [OF p k "open" dep req, of 5000] none
  have "closeRoom ?params 5000 scenarioR2 = (Inl TagsMustBeAssigned, scenarioR2)"
    by (metis prod.collapse)
  with dep stored show ?thesis by simp
qed

text \<open>
  The claim as stated fails when the tag comes with the request: room R3 carries
  no tag and the request is a client action, yet the close goes through, since
  the request supplies the tag vip.
\<close>

theorem closeRoom_request_tag_counterexample:
  "truthyFlag (clientAction (clientActionOptions (Some [''vip'']))) \<and>
   room_tags (openRoom ''R3'' (Some ''D4'')) = None \<and>
   roomDepartment scenarioR3 (openRoom ''R3'' (Some ''D4'')) = Some departmentD4 \<and>
   requestTagBeforeClosingChat departmentD4 = Some True \<and>
   chatClosingTags departmentD4 = Some [''billing''] \<and>
   fst (closeRoom (byUser (openRoom ''R3'' (Some ''D4'')) (Some (clientActionOptions (Some [''vip'']))))
         5000 scenarioR3) = Inr ()"
proof -
  let ?room = "openRoom ''R3'' (Some ''D4'')"
  let ?params = "byUser ?room (Some (clientActionOptions (Some [''vip''])))"
  have p: "p_room ?params = Some ?room" by (simp add: byUser_def)
  have k: "isOmnichannelRoom ?room" and "open": "room_open ?room"
    by (simp_all add: isOmnichannelRoom_def openRoom_def)
  have dep: "roomDepartment scenarioR3 ?room = Some departmentD4"
    by (simp add: roomDepartment_def scenarioR3_def blank_def openRoom_def)
  have tags: "resolveChatTags ?room (p_options ?params) scenarioR3 =
      (Inr (clientActionOptions (Some [''vip'', ''billing''])), scenarioR3)"
    by (subst resolveChatTags_department [OF dep])
      (simp add: Let_def concatUnique_def clientActionOptions_def noOptions_def openRoom_def
        departmentD4_def dept_def withTags_def byUser_def)
  have who: "chatCloserOf ?params =
      Some (''user'', \<lparr>closedBy_id = ''U1'', closedBy_username = Some ''agent.one''\<rparr>,
            userAuthor userU1)"
    by (simp add: chatCloserOf_def byUser_def userU1_def)
  have stored: "rooms scenarioR3 (room_id ?room) = Some ?room"
    by (simp add: scenarioR3_def blank_def openRoom_def)
  from closeRoom_accepted [OF p k "open" tags, of 5000] who
    closeRoom_writes [OF stored "open"]
  have "fst (closeRoom ?params 5000 scenarioR3) = Inr ()"
    by (simp add: Let_def)
  with dep show ?thesis
    by (simp add: clientActionOptions_def noOptions_def openRoom_def departmentD4_def dept_def)
qed

text \<open>
  C6. After \<^verbatim>\<open>closeRoom\<close> has closed a stored, open room, the stored room is
  closed and the history has grown by one closing message and one transcript
  prompt; a second \<^verbatim>\<open>closeRoom\<close> on the room as it is now stored returns
  successfully and changes nothing. Two calls in sequence make one transition
  and one set of closing messages.
\<close>

theorem closeRoom_twice:
  assumes "p_room params = Some room" "isOmnichannelRoom room" "room_open room"
    and "rooms st (room_id room) = Some room"
    and "closeRoom params now st = (Inr (), st')"
    and "p_room params' = rooms st' (room_id room)"
  shows "(\<exists>closed. rooms st' (room_id room) = Some closed \<and> \<not> room_open closed) \<and>
    (\<exists>m1 m2. messages st' = messages st @ [m1, m2] \<and>
       msg_t m1 = Some ''livechat-close'' \<and> msg_t m2 = Some ''command'') \<and>
    closeRoom params' now' st' = (Inr (), st')"
proof -
  from closeRoom_success [OF assms(1-5)] obtain closed m1 m2 where
    closed: "rooms st' (room_id room) = Some closed" "\<not> room_open closed"
    and grown: "messages st' = messages st @ [m1, m2]"
      "msg_t m1 = Some ''livechat-close''" "msg_t m2 = Some ''command''"
    by auto
  from closed assms(6) have "closeRoom params' now' st' = (Inr (), st')"
    by (simp add: closeRoom_guard)
  with closed grown show ?thesis by blast
qed

text \<open>
  The spec's scenario R1: the agent closes the open room R1 with the comment
  resolved; a second close a second later finds the room closed.
\<close>

theorem closeRoom_twice_witness:
  "map_option room_open (rooms (snd (closeRoom (byUser (openRoom ''R1'' None) None) 5000 scenarioR1)) ''R1'') =
     Some False \<and>
   map msg_t (messages (snd (closeRoom (byUser (openRoom ''R1'' None) None) 5000 scenarioR1))) =
     [Some ''livechat-close'', Some ''command''] \<and>
   closeRoom
     \<lparr>p_room = rooms (snd (closeRoom (byUser (openRoom ''R1'' None) None) 5000 scenarioR1)) ''R1'',
      p_comment = None, p_options = None, p_user = Some userU1, p_visitor = None\<rparr> 6000
     (snd (closeRoom (byUser (openRoom ''R1'' None) None) 5000 scenarioR1)) =
   (Inr (), snd (closeRoom (byUser (openRoom ''R1'' None) None) 5000 scenarioR1))"
proof -
  let ?room = "openRoom ''R1'' None"
  let ?params = "byUser ?room None"
  let ?st' = "snd (closeRoom ?params 5000 scenarioR1)"
  let ?params' = "\<lparr>p_room = rooms ?st' ''R1'', p_comment = None, p_options = None,
      p_user = Some userU1, p_visitor = None\<rparr>"
  have p: "p_room ?params = Some ?room" by (simp add: byUser_def)
  have k: "isOmnichannelRoom ?room" and "open": "room_open ?room"
    and untagged: "room_tags ?room = None"
    by (simp_all add: isOmnichannelRoom_def openRoom_def)
  have rid: "room_id ?room = ''R1''" by (simp add: openRoom_def)
  have stored: "rooms scenarioR1 (room_id ?room) = Some ?room"
    by (simp add: scenarioR1_def blank_def openRoom_def)
  have dep: "roomDepartment scenarioR1 ?room = None"
    by (simp add: roomDepartment_def openRoom_def)
  note ok = closeRoom_byUser_plain [OF stored k "open" dep untagged, of 5000]
  have p': "p_room ?params' = rooms ?st' (room_id ?room)" by (simp add: rid)
  have empty: "messages scenarioR1 = []" by (simp add: scenarioR1_def blank_def)
  from closeRoom_twice [OF p k "open" stored ok p', of 6000] empty rid
  show ?thesis by auto
qed

text \<open>
  C7 (as amended). After a successful close of a stored, open room the recorded
  closing data has \<^verbatim>\<open>closedAt\<close> the closing time and \<^verbatim>\<open>chatDuration\<close> the seconds
  from the room's creation to the closing time, which is nonnegative whenever
  the closing time is not before the creation. \<^verbatim>\<open>serviceTimeDuration\<close> is absent
  when no agent served the room; when one did and the closing time differs from
  the assignment time, it is present and is the seconds from the assignment to
  the closing time, positive when the assignment came first.
\<close>

theorem closeRoom_closing_data:
  assumes "p_room params = Some room" "isOmnichannelRoom room" "room_open room"
    and "rooms st (room_id room) = Some room"
    and "closeRoom params now st = (Inr (), st')"
  shows "\<exists>closed info.
    rooms st' (room_id room) = Some closed \<and> room_closing closed = Some info \<and>
    closedAt info = now \<and>
    chatDuration info = real_of_int (now - room_ts room) / 1000 \<and>
    (room_ts room \<le> now \<longrightarrow> 0 \<le> chatDuration info) \<and>
    (room_servedBy room = None \<longrightarrow> serviceTimeDuration info = None) \<and>
    (\<forall>s. room_servedBy room = Some s \<and> servedBy_ts s \<noteq> now \<longrightarrow>
       serviceTimeDuration info = Some (real_of_int (now - servedBy_ts s) / 1000)) \<and>
    (\<forall>s d. room_servedBy room = Some s \<and> servedBy_ts s \<le> now \<and>
       serviceTimeDuration info = Some d \<longrightarrow> 0 < d)"
proof -
  from closeRoom_success [OF assms] obtain closed info where
    closed: "rooms st' (room_id room) = Some closed" "room_closing closed = Some info"
    and info: "closedAt info = now"
      "chatDuration info = real_of_int (now - room_ts room) / 1000"
      "serviceTimeDuration info = serviceTimeDurationOf room now"
    by auto
  show ?thesis
  proof (intro exI conjI allI impI)
    show "rooms st' (room_id room) = Some closed" by fact
    show "room_closing closed = Some info" by fact
    show "closedAt info = now" by fact
    show "chatDuration info = real_of_int (now - room_ts room) / 1000" by fact
    show "0 \<le> chatDuration info" if "room_ts room \<le> now"
      using that info(2) by simp
    show "serviceTimeDuration info = None" if "room_servedBy room = None"
      using that info(3) by (simp add: serviceTimeDurationOf_def)
    show "serviceTimeDuration info = Some (real_of_int (now - servedBy_ts s) / 1000)"
      if "room_servedBy room = Some s \<and> servedBy_ts s \<noteq> now" for s
      using that info(3) by (simp add: serviceTimeDurationOf_def Let_def)
    show "0 < d"
      if "room_servedBy room = Some s \<and> servedBy_ts s \<le> now \<and>
          serviceTimeDuration info = Some d" for s d
      using that info(3) by (auto simp: serviceTimeDurationOf_def Let_def split: if_splits)
  qed
qed

text \<open>Room R5, created at 1000 ms and served from 2000 ms, closed at 5000 ms: 4 s and 3 s.\<close>

theorem closeRoom_closing_data_witness:
  "fst (closeRoom (byUser roomR5 None) 5000 scenarioR56) = Inr () \<and>
   room_servedBy roomR5 = Some \<lparr>servedBy_id = ''U1'', servedBy_ts = 2000\<rparr> \<and>
   (\<exists>closed info.
      rooms (snd (closeRoom (byUser roomR5 None) 5000 scenarioR56)) ''R5'' = Some closed \<and>
      room_closing closed = Some info \<and> closedAt info = 5000 \<and> chatDuration info = 4 \<and>
      serviceTimeDuration info = Some 3)"
proof -
  have p: "p_room (byUser roomR5 None) = Some roomR5" by (simp add: byUser_def)
  have k: "isOmnichannelRoom roomR5" and "open": "room_open roomR5"
    and untagged: "room_tags roomR5 = None"
    by (simp_all add: isOmnichannelRoom_def roomR5_def openRoom_def)
  have rid: "room_id roomR5 = ''R5''" and ts: "room_ts roomR5 = 1000"
    and served: "room_servedBy roomR5 = Some \<lparr>servedBy_id = ''U1'', servedBy_ts = 2000\<rparr>"
    by (simp_all add: roomR5_def openRoom_def)
  have stored: "rooms scenarioR56 (room_id roomR5) = Some roomR5"
    by (simp add: scenarioR56_def blank_def rid)
  have dep: "roomDepartment scenarioR56 roomR5 = None"
    by (simp add: roomDepartment_def roomR5_def openRoom_def)
  note ok = closeRoom_byUser_plain [OF stored k "open" dep untagged, of 5000]
  from closeRoom_closing_data [OF p k "open" stored ok] ok served rid ts
  show ?thesis by (auto dest: arg_cong [where f = fst])
qed

text \<open>
  The claim as stated fails twice. Room R6 carries a creation time of 2000 ms and
  an assignment at 3000 ms; closed when the clock reads 1000 ms, its chat
  duration is -1 s and its service time -2 s. Room R5 was taken by its agent at
  2000 ms; closed at 2000 ms, its service time is 0, and the field is left out
  although an agent served the room.
\<close>

theorem closeRoom_closing_data_counterexample:
  "fst (closeRoom (byUser roomR6 None) 1000 scenarioR56) = Inr () \<and>
   map_option (map_option chatDuration \<circ> room_closing)
     (rooms (snd (closeRoom (byUser roomR6 None) 1000 scenarioR56)) ''R6'') = Some (Some (- 1)) \<and>
   map_option (map_option serviceTimeDuration \<circ> room_closing)
     (rooms (snd (closeRoom (byUser roomR6 None) 1000 scenarioR56)) ''R6'') =
     Some (Some (Some (- 2))) \<and>
   fst (closeRoom (byUser roomR5 None) 2000 scenarioR56) = Inr () \<and>
   room_servedBy roomR5 = Some \<lparr>servedBy_id = ''U1'', servedBy_ts = 2000\<rparr> \<and>
   map_option (map_option serviceTimeDuration \<circ> room_closing)
     (rooms (snd (closeRoom (byUser roomR5 None) 2000 scenarioR56)) ''R5'') = Some (Some None)"
proof -
  have p6: "p_room (byUser roomR6 None) = Some roomR6"
    and p5: "p_room (byUser roomR5 None) = Some roomR5"
    by (simp_all add: byUser_def)
  have k6: "isOmnichannelRoom roomR6" and open6: "room_open roomR6"
    and untagged6: "room_tags roomR6 = None"
    by (simp_all add: isOmnichannelRoom_def roomR6_def openRoom_def)
  have k5: "isOmnichannelRoom roomR5" and open5: "room_open roomR5"
    and untagged5: "room_tags roomR5 = None"
    by (simp_all add: isOmnichannelRoom_def roomR5_def openRoom_def)
  have rid6: "room_id roomR6 = ''R6''" and ts6: "room_ts roomR6 = 2000"
    and served6: "room_servedBy roomR6 = Some \<lparr>servedBy_id = ''U1'', servedBy_ts = 3000\<rparr>"
    by (simp_all add: roomR6_def openRoom_def)
  have rid5: "room_id roomR5 = ''R5''"
    and served5: "room_servedBy roomR5 = Some \<lparr>servedBy_id = ''U1'', servedBy_ts = 2000\<rparr>"
    by (simp_all add: roomR5_def openRoom_def)
  have stored6: "rooms scenarioR56 (room_id roomR6) = Some roomR6"
    and stored5: "rooms scenarioR56 (room_id roomR5) = Some roomR5"
    by (simp_all add: scenarioR56_def blank_def rid6 rid5)
  have dep6: "roomDepartment scenarioR56 roomR6 = None"
    and dep5: "roomDepartment scenarioR56 roomR5 = None"
    by (simp_all add: roomDepartment_def roomR6_def roomR5_def openRoom_def)
  note ok6 = closeRoom_byUser_plain [OF stored6 k6 open6 dep6 untagged6, of 1000]
  note ok5 = closeRoom_byUser_plain [OF stored5 k5 open5 dep5 untagged5, of 2000]
  from closeRoom_success [OF p6 k6 open6 stored6 ok6] ok6 served6 rid6 ts6
  have six: "fst (closeRoom (byUser roomR6 None) 1000 scenarioR56) = Inr () \<and>
      map_option (map_option chatDuration \<circ> room_closing)
        (rooms (snd (closeRoom (byUser roomR6 None) 1000 scenarioR56)) ''R6'') = Some (Some (- 1)) \<and>
      map_option (map_option serviceTimeDuration \<circ> room_closing)
        (rooms (snd (closeRoom (byUser roomR6 None) 1000 scenarioR56)) ''R6'') =
        Some (Some (Some (- 2)))"
    by (auto simp: serviceTimeDurationOf_def dest: arg_cong [where f = fst])
  from closeRoom_success [OF p5 k5 open5 stored5 ok5] ok5 served5 rid5
  have five: "fst (closeRoom (byUser roomR5 None) 2000 scenarioR56) = Inr () \<and>
      map_option (map_option serviceTimeDuration \<circ> room_closing)
        (rooms (snd (closeRoom (byUser roomR5 None) 2000 scenarioR56)) ''R5'') = Some (Some None)"
    by (auto simp: serviceTimeDurationOf_def dest: arg_cong [where f = fst])
  from six five served5 show ?thesis by simp
qed

section \<open>Transcript generator\<close>

lemma sendTranscript_no_visitor:
  "visitors st (tp_token params) = None \<Longrightarrow> sendTranscript params now st = (Inl InvalidToken, st)"
  by (simp add: sendTranscript_def)

lemma sendTranscript_no_room:
  "visitors st (tp_token params) = Some visitor \<Longrightarrow> rooms st (tp_rid params) = None \<Longrightarrow>
   sendTranscript params now st = (Inl InvalidRoom, st)"
  by (simp add: sendTranscript_def Let_def)

lemma sendTranscript_foreign_room:
  "visitors st (tp_token params) = Some visitor \<Longrightarrow> rooms st (tp_rid params) = Some room \<Longrightarrow>
   room_t room \<noteq> ''l'' \<or> room_v room = None \<or>
     (\<exists>v. room_v room = Some v \<and> visitor_token v \<noteq> tp_token params) \<Longrightarrow>
   sendTranscript params now st = (Inl InvalidRoom, st)"
  by (auto simp: sendTranscript_def Let_def)




text \<open>
  C9. \<^verbatim>\<open>sendTranscript\<close> fails with the invalid-token error whenever no visitor
  exists for the token. Past that check, that is when a visitor exists for the
  token, it fails with the invalid-room error whenever the room is absent, is
  not of kind \<^verbatim>\<open>l\<close>, has no visitor, or has a visitor whose token is not the
  one supplied. In all these cases no mail is sent and no message is written:
  the state is returned as it was.
\<close>

theorem sendTranscript_rejects:
  "(visitors st (tp_token params) = None \<longrightarrow>
      sendTranscript params now st = (Inl InvalidToken, st)) \<and>
   (\<forall>visitor. visitors st (tp_token params) = Some visitor \<and>
      (rooms st (tp_rid params) = None \<or>
       (\<exists>room. rooms st (tp_rid params) = Some room \<and>
          (room_t room \<noteq> ''l'' \<or> room_v room = None \<or>
           (\<exists>v. room_v room = Some v \<and> visitor_token v \<noteq> tp_token params)))) \<longrightarrow>
      sendTranscript params now st = (Inl InvalidRoom, st))"
proof (intro conjI allI impI)
  assume "visitors st (tp_token params) = None"
  then show "sendTranscript params now st = (Inl InvalidToken, st)"
    by (rule sendTranscript_no_visitor)
next
  fix visitor
  assume a: "visitors st (tp_token params) = Some visitor \<and>
      (rooms st (tp_rid params) = None \<or>
       (\<exists>room. rooms st (tp_rid params) = Some room \<and>
          (room_t room \<noteq> ''l'' \<or> room_v room = None \<or>
           (\<exists>v. room_v room = Some v \<and> visitor_token v \<noteq> tp_token params))))"
  show "sendTranscript params now st = (Inl InvalidRoom, st)"
  proof (cases "rooms st (tp_rid params)")
    case None
    with a show ?thesis by (simp add: sendTranscript_no_room)
  next
    case (Some room)
    with a show ?thesis by (intro sendTranscript_foreign_room [where room = room]) auto
  qed
qed

text \<open>
  The visitor of token tok-1 asks for room R9, which does not exist, and for
  room R1 under a token that is nobody's.
\<close>

theorem sendTranscript_rejects_witness:
  "visitors scenarioTranscript ''tok-1'' = Some visitorV1 \<and>
   rooms scenarioTranscript ''R9'' = None \<and>
   sendTranscript (transcriptRequestOf ''tok-1'' ''R9'') 100 scenarioTranscript =
     (Inl InvalidRoom, scenarioTranscript) \<and>
   visitors scenarioTranscript ''tok-9'' = None \<and>
   sendTranscript (transcriptRequestOf ''tok-9'' ''R1'') 100 scenarioTranscript =
     (Inl InvalidToken, scenarioTranscript)"
proof -
  have v: "visitors scenarioTranscript ''tok-1'' = Some visitorV1"
    and r: "rooms scenarioTranscript ''R9'' = None"
    and n: "visitors scenarioTranscript ''tok-9'' = None"
    by (simp_all add: scenarioTranscript_def scenarioR1_def blank_def)
  from sendTranscript_rejects [of scenarioTranscript "transcriptRequestOf ''tok-1'' ''R9''" 100]
    sendTranscript_rejects [of scenarioTranscript "transcriptRequestOf ''tok-9'' ''R1''" 100]
    v r n
  show ?thesis by (simp add: transcriptRequestOf_def)
qed

text \<open>
  The order of the two checks: with the visitor and the room both absent, the
  error is the invalid-token one.
\<close>

lemma sendTranscript_token_checked_first:
  "visitors scenarioTranscript ''tok-9'' = None \<and>
   rooms scenarioTranscript ''R9'' = None \<and>
   fst (sendTranscript (transcriptRequestOf ''tok-9'' ''R9'') 100 scenarioTranscript) =
     Inl InvalidToken"
  by (simp add: sendTranscript_def transcriptRequestOf_def scenarioTranscript_def scenarioR1_def
      blank_def)

end
